(* ===== verification/Prelude.thy ===== *)
theory Prelude
  imports Main
begin

text \<open>
  Shared vocabulary of the SonarQubeCDK development: the name of a construct
  identifier, a bind for the error sum the construction API returns, and a keyed
  update on association lists (the children of a construct scope are an ordered
  association list from construct id to declaration). The collection
  \<open>scope_simps\<close> gathers the rewrite rules that evaluate the construction API on
  concrete programs.
\<close>

named_theorems scope_simps "rules that evaluate the construct API on concrete inputs"

type_synonym cid = string

subsection \<open>Results of fallible calls\<close>

text \<open>
  A call into the declaration API either raises (\<open>Inl\<close> error) or returns
  (\<open>Inr\<close> value); \<open>rbind\<close> sequences two such calls as Python's straight-line
  code does: an exception stops the rest.
\<close>

definition rbind :: "'e + 'a \<Rightarrow> ('a \<Rightarrow> 'e + 'b) \<Rightarrow> 'e + 'b" where
  "rbind m f = (case m of Inl e \<Rightarrow> Inl e | Inr a \<Rightarrow> f a)"

lemma rbind_Inl [simp]: "rbind (Inl e) f = Inl e"
  by (simp add: rbind_def)

lemma rbind_Inr [simp]: "rbind (Inr a) f = f a"
  by (simp add: rbind_def)

lemma rbind_eq_Inr: "rbind m f = Inr b \<longleftrightarrow> (\<exists>a. m = Inr a \<and> f a = Inr b)"
  by (cases m) (auto simp: rbind_def)

text \<open>
  A loop that calls a fallible function on each element of a list and stops at
  the first exception (\<open>[f(x) for x in xs]\<close>).
\<close>

fun rmap :: "('a \<Rightarrow> 'e + 'b) \<Rightarrow> 'a list \<Rightarrow> 'e + 'b list" where
  "rmap f [] = Inr []"
| "rmap f (x # xs) = rbind (f x) (\<lambda>y. rbind (rmap f xs) (\<lambda>ys. Inr (y # ys)))"

lemma rmap_eq_Inr: "rmap f xs = Inr ys \<longleftrightarrow> list_all2 (\<lambda>x y. f x = Inr y) xs ys"
  by (induction xs arbitrary: ys) (auto simp: rbind_eq_Inr list_all2_Cons1)

lemma rmap_succeeds: "(\<exists>ys. rmap f xs = Inr ys) \<longleftrightarrow> (\<forall>x \<in> set xs. \<exists>y. f x = Inr y)"
  by (induction xs) (auto simp: rbind_eq_Inr)

lemma rmap_fails: "rmap f xs = Inl e \<Longrightarrow> \<exists>x \<in> set xs. f x = Inl e"
  by (induction xs) (auto simp: rbind_def split: sum.splits)

lemma rmap_Inr_mem: "rmap f xs = Inr ys \<Longrightarrow> x \<in> set xs \<Longrightarrow> \<exists>y. f x = Inr y"
  by (auto simp: rmap_eq_Inr list_all2_conv_all_nth in_set_conv_nth)

subsection \<open>Keyed update of an association list\<close>

fun map_key :: "'k \<Rightarrow> ('v \<Rightarrow> 'v) \<Rightarrow> ('k \<times> 'v) list \<Rightarrow> ('k \<times> 'v) list" where
  "map_key k f [] = []"
| "map_key k f ((k', v) # xs) = (if k = k' then (k', f v) else (k', v)) # map_key k f xs"

lemma map_fst_map_key [simp]: "map fst (map_key k f xs) = map fst xs"
  by (induction xs) auto

lemma length_map_key [simp]: "length (map_key k f xs) = length xs"
  by (induction xs) auto

lemma map_key_absent: "k \<notin> set (map fst xs) \<Longrightarrow> map_key k f xs = xs"
  by (induction xs) auto

lemma map_of_map_key_same:
  "map_of (map_key k f xs) k = map_option f (map_of xs k)"
  by (induction xs) auto

lemma map_of_map_key_other:
  "k' \<noteq> k \<Longrightarrow> map_of (map_key k f xs) k' = map_of xs k'"
  by (induction xs) auto

lemma map_of_map_key:
  "map_of (map_key k f xs) = (map_of xs)(k := map_option f (map_of xs k))"
  by (rule ext) (simp add: map_of_map_key_same map_of_map_key_other)

lemma map_key_append [simp]:
  "map_key k f (xs @ ys) = map_key k f xs @ map_key k f ys"
  by (induction xs) auto

lemma map_key_const_map:
  "distinct (map fst xs) \<Longrightarrow> map_of xs k = Some v \<Longrightarrow> g v' = g v \<Longrightarrow>
   map (\<lambda>(a, b). (a, g b)) (map_key k (\<lambda>_. v') xs) = map (\<lambda>(a, b). (a, g b)) xs"
proof (induction xs)
  case Nil
  then show ?case by simp
next
  case (Cons x xs)
  obtain k0 v0 where x: "x = (k0, v0)" by (cases x)
  show ?case
  proof (cases "k = k0")
    case True
    with Cons.prems x have "v0 = v" and "k \<notin> set (map fst xs)" by auto
    with True x Cons.prems(3) show ?thesis by (simp add: map_key_absent)
  next
    case False
    with Cons x show ?thesis by auto
  qed
qed

subsection \<open>Membership in a list of keys\<close>

lemma map_of_SomeD_fst: "map_of xs k = Some v \<Longrightarrow> k \<in> set (map fst xs)"
  by (induction xs) (auto split: if_splits)

lemma map_of_None_iff: "map_of xs k = None \<longleftrightarrow> k \<notin> set (map fst xs)"
  by (induction xs) auto

lemma map_key_const_memD:
  "x \<in> set (map_key k (\<lambda>_. v) xs) \<Longrightarrow> x \<in> set xs \<or> x = (k, v)"
  by (induction xs) (auto split: if_splits)

subsection \<open>Position of an element in a list\<close>

definition rank :: "'a list \<Rightarrow> 'a \<Rightarrow> nat" where
  "rank xs x = length (takeWhile (\<lambda>y. y \<noteq> x) xs)"

lemma rank_append_in: "x \<in> set xs \<Longrightarrow> rank (xs @ ys) x = rank xs x"
  by (induction xs) (auto simp: rank_def)

lemma rank_append_notin: "x \<notin> set xs \<Longrightarrow> rank (xs @ ys) x = length xs + rank ys x"
  by (induction xs) (auto simp: rank_def)

lemma rank_less: "x \<in> set xs \<Longrightarrow> rank xs x < length xs"
  by (induction xs) (auto simp: rank_def)

lemma rank_Cons_self [simp]: "rank (x # xs) x = 0"
  by (simp add: rank_def)

subsection \<open>Decimal numerals\<close>

text \<open>
  Reading a non-empty string of ASCII digits as a natural number, as the shell reads
  the numbers of a command.
\<close>

definition digit_val :: "char \<Rightarrow> nat option" where
  "digit_val c = (let n = (of_char c :: nat) in if 48 \<le> n \<and> n \<le> 57 then Some (n - 48) else None)"

fun parse_nat_acc :: "nat \<Rightarrow> string \<Rightarrow> nat option" where
  "parse_nat_acc n [] = Some n"
| "parse_nat_acc n (c # cs) =
     (case digit_val c of None \<Rightarrow> None | Some d \<Rightarrow> parse_nat_acc (10 * n + d) cs)"

definition parse_nat :: "string \<Rightarrow> nat option" where
  "parse_nat s = (if s = [] then None else parse_nat_acc 0 s)"

end
