(* ===== verification/Construct.thy ===== *)
theory Construct
  imports Prelude
begin

text \<open>
  The construct tree of the infrastructure-as-code framework as the program uses
  it: a scope (the App, or a Stack) holds its children as an ordered list of
  (construct id, declaration) pairs. Creating a construct with a scope and an id
  sanitises the id (a path separator \<open>/\<close> becomes \<open>--\<close>), refuses an empty id
  and a second child of the same id, and otherwise appends the child; methods
  called later on a construct (adding a rule, a command, a grant, a limit) change
  that child in place. This theory is generic in the declaration type \<open>'r\<close>:
  the lemmas here are the interface the resource layer relies on.
\<close>

datatype error =
    EmptyId
  | DuplicateId cid
  | NoSuchConstruct cid
  | WrongKind cid
  | NoAutoScalingGroup cid
  | InvalidStackName string
  | FormatError
  | AttributeError string

record 'r scope =
  scope_name :: string
  children :: "(cid \<times> 'r) list"

abbreviation ids :: "('r, 'x) scope_scheme \<Rightarrow> cid list" where
  "ids s \<equiv> map fst (children s)"

definition sanitize_id :: "string \<Rightarrow> cid" where
  "sanitize_id i = concat (map (\<lambda>c. if c = CHR ''/'' then ''--'' else [c]) i)"

definition add_child :: "'r scope \<Rightarrow> string \<Rightarrow> 'r \<Rightarrow> error + 'r scope" where
  "add_child s i r =
     (let c = sanitize_id i in
      if c = [] then Inl EmptyId
      else if c \<in> set (ids s) then Inl (DuplicateId c)
      else Inr (s\<lparr>children := children s @ [(c, r)]\<rparr>))"

definition update_child :: "'r scope \<Rightarrow> cid \<Rightarrow> ('r \<Rightarrow> error + 'r) \<Rightarrow> error + 'r scope" where
  "update_child s c f =
     (case map_of (children s) c of
        None \<Rightarrow> Inl (NoSuchConstruct c)
      | Some r \<Rightarrow> (case f r of
                    Inl e \<Rightarrow> Inl e
                  | Inr r' \<Rightarrow> Inr (s\<lparr>children := map_key c (\<lambda>_. r') (children s)\<rparr>)))"

definition scope_wf :: "'r scope \<Rightarrow> bool" where
  "scope_wf s \<longleftrightarrow>
     distinct (ids s) \<and> list_all (\<lambda>c. c \<noteq> [] \<and> CHR ''/'' \<notin> set c) (ids s)"

subsection \<open>Sanitised identifiers\<close>

lemma sanitize_id_Nil_iff [simp]: "sanitize_id i = [] \<longleftrightarrow> i = []"
  by (induction i) (auto simp: sanitize_id_def)

lemma sanitize_id_no_sep: "CHR ''/'' \<notin> set (sanitize_id i)"
  by (induction i) (auto simp: sanitize_id_def)

lemma sanitize_id_idem: "CHR ''/'' \<notin> set i \<Longrightarrow> sanitize_id i = i"
  by (induction i) (auto simp: sanitize_id_def)

subsection \<open>Creating a child\<close>

lemma add_child_EmptyId [scope_simps]: "i = [] \<Longrightarrow> add_child s i r = Inl EmptyId"
  by (simp add: add_child_def)

lemma add_child_Duplicate [scope_simps]:
  "sanitize_id i \<in> set (ids s) \<Longrightarrow> i \<noteq> [] \<Longrightarrow> add_child s i r = Inl (DuplicateId (sanitize_id i))"
  by (simp add: add_child_def Let_def)

lemma add_child_fresh [scope_simps]:
  "i \<noteq> [] \<Longrightarrow> sanitize_id i \<notin> set (ids s) \<Longrightarrow>
   add_child s i r = Inr (s\<lparr>children := children s @ [(sanitize_id i, r)]\<rparr>)"
  by (simp add: add_child_def Let_def)

lemma add_child_Inr_iff:
  "add_child s i r = Inr s' \<longleftrightarrow>
     i \<noteq> [] \<and> sanitize_id i \<notin> set (ids s) \<and>
     s' = s\<lparr>children := children s @ [(sanitize_id i, r)]\<rparr>"
  by (auto simp: add_child_def Let_def)

lemma add_child_children:
  "add_child s i r = Inr s' \<Longrightarrow> children s' = children s @ [(sanitize_id i, r)]"
  by (simp add: add_child_Inr_iff)

lemma add_child_scope_name:
  "add_child s i r = Inr s' \<Longrightarrow> scope_name s' = scope_name s"
  by (auto simp: add_child_Inr_iff)

lemma add_child_wf:
  "scope_wf s \<Longrightarrow> add_child s i r = Inr s' \<Longrightarrow> scope_wf s'"
  by (auto simp: add_child_Inr_iff scope_wf_def sanitize_id_no_sep)

subsection \<open>Changing a child in place\<close>

lemma update_child_None [scope_simps]:
  "c \<notin> set (ids s) \<Longrightarrow> update_child s c f = Inl (NoSuchConstruct c)"
  by (simp add: update_child_def flip: map_of_eq_None_iff)

lemma update_child_Some [scope_simps]:
  "map_of (children s) c = Some r \<Longrightarrow> f r = Inr r' \<Longrightarrow>
   update_child s c f = Inr (s\<lparr>children := map_key c (\<lambda>_. r') (children s)\<rparr>)"
  by (simp add: update_child_def)

lemma update_child_Inr_iff:
  "update_child s c f = Inr s' \<longleftrightarrow>
     (\<exists>r r'. map_of (children s) c = Some r \<and> f r = Inr r' \<and>
            s' = s\<lparr>children := map_key c (\<lambda>_. r') (children s)\<rparr>)"
  by (auto simp: update_child_def split: option.splits sum.splits)

lemma update_child_ids:
  "update_child s c f = Inr s' \<Longrightarrow> ids s' = ids s"
  by (auto simp: update_child_Inr_iff)

lemma update_child_scope_name:
  "update_child s c f = Inr s' \<Longrightarrow> scope_name s' = scope_name s"
  by (auto simp: update_child_Inr_iff)

lemma update_child_wf:
  "scope_wf s \<Longrightarrow> update_child s c f = Inr s' \<Longrightarrow> scope_wf s'"
  by (simp add: scope_wf_def update_child_ids)

lemma update_child_lookup:
  "update_child s c f = Inr s' \<Longrightarrow>
   \<exists>r r'. map_of (children s) c = Some r \<and> f r = Inr r' \<and>
          map_of (children s') = (map_of (children s))(c \<mapsto> r')"
  by (auto simp: update_child_Inr_iff map_of_map_key)

lemma add_child_other:
  "add_child s i r = Inr t \<Longrightarrow> c \<noteq> sanitize_id i \<Longrightarrow> map_of (children t) c = map_of (children s) c"
  by (auto simp: add_child_Inr_iff map_add_def split: option.splits)

end
