(* ===== verification/Resources.thy ===== *)
theory Resources
  imports Construct
begin

text \<open>
  The declarations the stack creates, with the attributes the program passes to
  each constructor, and the methods it calls on them afterwards. A reference to
  another construct (a Python object held in a variable or attribute) is that
  construct's id. Values that exist only after provisioning (a database endpoint)
  are deferred tokens inside strings; secret values are references to a field of
  a secret, never text. The program's statements are operations of the datatype
  \<open>stack_op\<close>, run in order by \<open>run\<close>; \<open>stack_reach\<close> is the step relation
  of a stack under construction, and every state it reaches is well formed.
\<close>

subsection \<open>Strings with deferred tokens, secret references\<close>

datatype frag = Lit string | Tok cid string

type_synonym tstring = "frag list"

datatype secret_ref = SecretField cid string

subsection \<open>Declarations\<close>

record vpc_props =
  vpc_cidr :: string
  max_azs :: nat

record secret_props =
  secret_username :: string
  generate_key :: string

datatype peer = AnyIpv4 | Ipv4 string

datatype port = Tcp nat | Udp nat

record ingress_rule =
  rule_peer :: peer
  rule_port :: port
  rule_description :: string

record sg_props =
  sg_vpc :: cid
  allow_all_outbound :: bool
  sg_description :: string
  ingress_rules :: "ingress_rule list"

record pgroup_props =
  parameter_group_name :: string

datatype engine = AURORA | AURORA_MYSQL | AURORA_POSTGRESQL

datatype instance_class = BURSTABLE3 | STANDARD5 | MEMORY5

datatype instance_size = SMALL | MEDIUM | LARGE | XLARGE

record db_props =
  db_engine :: engine
  engine_version :: string
  default_database_name :: string
  db_parameter_group :: cid
  master_username :: string
  master_password :: secret_ref
  db_instance_type :: string
  db_security_groups :: "cid list"
  db_vpc :: cid

record ecs_cluster_props =
  cluster_vpc :: cid
  capacity_instance_type :: "string option"
  user_data :: "string list"

datatype grant = ManagedPolicy string | SecretRead cid

record role_props =
  role_name :: string
  assumed_by :: string
  role_grants :: "grant list"

datatype ulimit_name = CORE | NOFILE | NPROC | MEMLOCK | STACK

record ulimit =
  ul_name :: ulimit_name
  soft_limit :: nat
  hard_limit :: nat

record service_props =
  svc_cluster :: cid
  svc_cpu :: nat
  svc_memory_limit_mib :: nat
  desired_count :: nat
  container_image :: string
  container_port :: nat
  svc_secrets :: "(string \<times> secret_ref) list"
  svc_environment :: "(string \<times> tstring) list"
  task_role :: "cid option"
  execution_role :: "cid option"
  public_load_balancer :: bool
  container_ulimits :: "ulimit list"

datatype resource =
    Vpc vpc_props
  | DatabaseSecret secret_props
  | SecurityGroup sg_props
  | ClusterParameterGroup pgroup_props
  | DatabaseCluster db_props
  | EcsCluster ecs_cluster_props
  | Role role_props
  | LoadBalancedEc2Service service_props

type_synonym stack = "resource scope"

datatype kind =
    Network | Credential | SecurityPolicy | ParameterGroup
  | DbCluster | ComputeCluster | Identity | Service

fun kind_of :: "resource \<Rightarrow> kind" where
  "kind_of (Vpc _) = Network"
| "kind_of (DatabaseSecret _) = Credential"
| "kind_of (SecurityGroup _) = SecurityPolicy"
| "kind_of (ClusterParameterGroup _) = ParameterGroup"
| "kind_of (DatabaseCluster _) = DbCluster"
| "kind_of (EcsCluster _) = ComputeCluster"
| "kind_of (Role _) = Identity"
| "kind_of (LoadBalancedEc2Service _) = Service"

fun instance_class_name :: "instance_class \<Rightarrow> string" where
  "instance_class_name BURSTABLE3 = ''t3''"
| "instance_class_name STANDARD5 = ''m5''"
| "instance_class_name MEMORY5 = ''r5''"

fun instance_size_name :: "instance_size \<Rightarrow> string" where
  "instance_size_name SMALL = ''small''"
| "instance_size_name MEDIUM = ''medium''"
| "instance_size_name LARGE = ''large''"
| "instance_size_name XLARGE = ''xlarge''"

definition instance_type_of :: "instance_class \<Rightarrow> instance_size \<Rightarrow> string" where
  "instance_type_of c sz = instance_class_name c @ ''.'' @ instance_size_name sz"

text \<open>
  The provisioning engine substitutes a deferred token once the resource exists;
  \<open>out c a\<close> is attribute \<open>a\<close> of provisioned construct \<open>c\<close>, if known.
\<close>

fun resolve_frag :: "(cid \<Rightarrow> string \<Rightarrow> string option) \<Rightarrow> frag \<Rightarrow> string option" where
  "resolve_frag out (Lit x) = Some x"
| "resolve_frag out (Tok c a) = out c a"

fun resolve :: "(cid \<Rightarrow> string \<Rightarrow> string option) \<Rightarrow> tstring \<Rightarrow> string option" where
  "resolve out [] = Some []"
| "resolve out (f # t) =
     (case resolve_frag out f of None \<Rightarrow> None | Some x \<Rightarrow> map_option ((@) x) (resolve out t))"

fun engine_default_port :: "engine \<Rightarrow> nat" where
  "engine_default_port AURORA = 3306"
| "engine_default_port AURORA_MYSQL = 3306"
| "engine_default_port AURORA_POSTGRESQL = 5432"

subsection \<open>References between declarations\<close>

fun frag_refs :: "frag \<Rightarrow> cid list" where
  "frag_refs (Lit _) = []"
| "frag_refs (Tok c _) = [c]"

definition tstring_refs :: "tstring \<Rightarrow> cid list" where
  "tstring_refs t = concat (map frag_refs t)"

fun secret_cid :: "secret_ref \<Rightarrow> cid" where
  "secret_cid (SecretField c _) = c"

fun grant_refs :: "grant \<Rightarrow> cid list" where
  "grant_refs (ManagedPolicy _) = []"
| "grant_refs (SecretRead c) = [c]"

fun opt_list :: "'a option \<Rightarrow> 'a list" where
  "opt_list None = []"
| "opt_list (Some x) = [x]"

fun refs :: "resource \<Rightarrow> cid list" where
  "refs (Vpc _) = []"
| "refs (DatabaseSecret _) = []"
| "refs (SecurityGroup p) = [sg_vpc p]"
| "refs (ClusterParameterGroup _) = []"
| "refs (DatabaseCluster p) =
     [db_vpc p] @ db_security_groups p @ [db_parameter_group p, secret_cid (master_password p)]"
| "refs (EcsCluster p) = [cluster_vpc p]"
| "refs (Role p) = concat (map grant_refs (role_grants p))"
| "refs (LoadBalancedEc2Service p) =
     [svc_cluster p] @ map (secret_cid \<circ> snd) (svc_secrets p)
     @ concat (map (tstring_refs \<circ> snd) (svc_environment p))
     @ opt_list (task_role p) @ opt_list (execution_role p)"

subsection \<open>Methods called on declared constructs\<close>

definition same_rule :: "ingress_rule \<Rightarrow> ingress_rule \<Rightarrow> bool" where
  "same_rule a b \<longleftrightarrow> rule_peer a = rule_peer b \<and> rule_port a = rule_port b"

definition add_ingress_rule :: "cid \<Rightarrow> ingress_rule \<Rightarrow> resource \<Rightarrow> error + resource" where
  "add_ingress_rule c rule r =
     (case r of
        SecurityGroup p \<Rightarrow>
          Inr (SecurityGroup
                (if list_ex (same_rule rule) (ingress_rules p) then p
                 else p\<lparr>ingress_rules := ingress_rules p @ [rule]\<rparr>))
      | _ \<Rightarrow> Inl (WrongKind c))"

definition add_commands :: "cid \<Rightarrow> string list \<Rightarrow> resource \<Rightarrow> error + resource" where
  "add_commands c cmds r =
     (case r of
        EcsCluster p \<Rightarrow>
          (if capacity_instance_type p = None then Inl (NoAutoScalingGroup c)
           else Inr (EcsCluster (p\<lparr>user_data := user_data p @ cmds\<rparr>)))
      | _ \<Rightarrow> Inl (WrongKind c))"

definition grant_read :: "cid \<Rightarrow> cid \<Rightarrow> resource \<Rightarrow> error + resource" where
  "grant_read c sec r =
     (case r of
        Role p \<Rightarrow> Inr (Role (p\<lparr>role_grants := role_grants p @ [SecretRead sec]\<rparr>))
      | _ \<Rightarrow> Inl (WrongKind c))"

definition add_ulimits :: "cid \<Rightarrow> ulimit \<Rightarrow> resource \<Rightarrow> error + resource" where
  "add_ulimits c u r =
     (case r of
        LoadBalancedEc2Service p \<Rightarrow>
          Inr (LoadBalancedEc2Service (p\<lparr>container_ulimits := container_ulimits p @ [u]\<rparr>))
      | _ \<Rightarrow> Inl (WrongKind c))"

subsection \<open>Statements of a stack constructor, run in order\<close>

datatype stack_op =
    Declare string resource
  | AddIngressRule cid ingress_rule
  | AddCommands cid "string list"
  | GrantRead cid cid
  | AddUlimits cid ulimit

fun step :: "stack \<Rightarrow> stack_op \<Rightarrow> error + stack" where
  "step s (Declare i r) = add_child s i r"
| "step s (AddIngressRule c rule) = update_child s c (add_ingress_rule c rule)"
| "step s (AddCommands c cmds) = update_child s c (add_commands c cmds)"
| "step s (GrantRead sec role) =
     (case map_of (children s) sec of
        None \<Rightarrow> Inl (NoSuchConstruct sec)
      | Some (DatabaseSecret _) \<Rightarrow> update_child s role (grant_read role sec)
      | Some _ \<Rightarrow> Inl (WrongKind sec))"
| "step s (AddUlimits c u) = update_child s c (add_ulimits c u)"

fun run :: "stack \<Rightarrow> stack_op list \<Rightarrow> error + stack" where
  "run s [] = Inr s"
| "run s (op # ops) = rbind (step s op) (\<lambda>s'. run s' ops)"

definition new_stack :: "string \<Rightarrow> stack" where
  "new_stack sid = \<lparr>scope_name = sid, children = []\<rparr>"

subsection \<open>Invariants of a stack under construction\<close>

text \<open>
  A statement may only mention constructs that exist: a declaration's references
  are ids of children already in the stack (in the Python source they are objects
  created by earlier statements). \<open>refs_closed\<close> says no child refers to a missing
  one, \<open>topo_ordered\<close> that each child refers only to children declared before it.
\<close>

fun op_ok :: "stack \<Rightarrow> stack_op \<Rightarrow> bool" where
  "op_ok s (Declare i r) = list_all (\<lambda>x. x \<in> set (ids s)) (refs r)"
| "op_ok s _ = True"

definition refs_closed :: "stack \<Rightarrow> bool" where
  "refs_closed s \<longleftrightarrow>
     list_all (\<lambda>(c, r). list_all (\<lambda>x. x \<in> set (ids s)) (refs r)) (children s)"

definition stack_wf :: "stack \<Rightarrow> bool" where
  "stack_wf s \<longleftrightarrow> scope_wf s \<and> refs_closed s"

fun topo_from :: "cid list \<Rightarrow> (cid \<times> resource) list \<Rightarrow> bool" where
  "topo_from seen [] = True"
| "topo_from seen ((c, r) # xs) =
     (list_all (\<lambda>x. x \<in> set seen) (refs r) \<and> topo_from (seen @ [c]) xs)"

definition topo_ordered :: "stack \<Rightarrow> bool" where
  "topo_ordered s \<longleftrightarrow> topo_from [] (children s)"

definition dep_edges :: "stack \<Rightarrow> (cid \<times> cid) list" where
  "dep_edges s = concat (map (\<lambda>(c, r). map (\<lambda>x. (c, x)) (refs r)) (children s))"

inductive stack_reach :: "string \<Rightarrow> stack \<Rightarrow> bool" for sid where
  start: "stack_reach sid (new_stack sid)"
| stmt: "stack_reach sid s \<Longrightarrow> op_ok s op \<Longrightarrow> step s op = Inr s' \<Longrightarrow> stack_reach sid s'"

fun run_ok :: "stack \<Rightarrow> stack_op list \<Rightarrow> bool" where
  "run_ok s [] = True"
| "run_ok s (op # ops) =
     (op_ok s op \<and> (case step s op of Inl _ \<Rightarrow> True | Inr s' \<Rightarrow> run_ok s' ops))"

subsection \<open>Frame lemmas of the methods\<close>

lemmas method_defs = add_ingress_rule_def add_commands_def grant_read_def add_ulimits_def

lemma add_ingress_rule_frame:
  "add_ingress_rule c rule r = Inr r' \<Longrightarrow> kind_of r' = kind_of r \<and> refs r' = refs r"
  by (auto simp: add_ingress_rule_def split: resource.splits)

lemma add_commands_frame:
  "add_commands c cmds r = Inr r' \<Longrightarrow> kind_of r' = kind_of r \<and> refs r' = refs r"
  by (auto simp: add_commands_def split: resource.splits if_splits)

lemma grant_read_frame:
  "grant_read c sec r = Inr r' \<Longrightarrow> kind_of r' = kind_of r \<and> refs r' = refs r @ [sec]"
  by (auto simp: grant_read_def split: resource.splits)

lemma add_ulimits_frame:
  "add_ulimits c u r = Inr r' \<Longrightarrow> kind_of r' = kind_of r \<and> refs r' = refs r"
  by (auto simp: add_ulimits_def split: resource.splits)

lemma step_scope_name: "step s op = Inr s' \<Longrightarrow> scope_name s' = scope_name s"
  by (cases op)
     (auto simp: add_child_scope_name update_child_scope_name split: option.splits resource.splits)

lemma run_append: "run s (xs @ ys) = rbind (run s xs) (\<lambda>s'. run s' ys)"
  by (induction xs arbitrary: s) (auto simp: rbind_def split: sum.splits)

subsection \<open>Every statement keeps the stack well formed\<close>

lemma refs_closed_add_child:
  "refs_closed s \<Longrightarrow> list_all (\<lambda>x. x \<in> set (ids s)) (refs r) \<Longrightarrow>
   add_child s i r = Inr s' \<Longrightarrow> refs_closed s'"
  by (auto simp: refs_closed_def add_child_Inr_iff list_all_iff)

lemma refs_closed_update_child:
  assumes closed: "refs_closed s"
    and upd: "update_child s c f = Inr s'"
    and grow: "\<And>r r'. f r = Inr r' \<Longrightarrow> set (refs r') \<subseteq> set (refs r) \<union> set (ids s)"
  shows "refs_closed s'"
proof -
  from upd obtain r r' where look: "map_of (children s) c = Some r" and fr: "f r = Inr r'"
    and s': "s' = s\<lparr>children := map_key c (\<lambda>_. r') (children s)\<rparr>"
    by (auto simp: update_child_Inr_iff)
  from look have "(c, r) \<in> set (children s)" by (rule map_of_SomeD)
  with closed have "set (refs r) \<subseteq> set (ids s)"
    by (fastforce simp: refs_closed_def list_all_iff)
  with grow [OF fr] have new: "set (refs r') \<subseteq> set (ids s)"
    by blast
  from upd have same: "ids s' = ids s" by (rule update_child_ids)
  show ?thesis
    unfolding refs_closed_def list_all_iff
  proof (intro ballI)
    fix x assume "x \<in> set (children s')"
    with s' have "x \<in> set (children s) \<or> x = (c, r')"
      by (auto dest: map_key_const_memD)
    with closed new same show "case x of (c, r) \<Rightarrow> \<forall>y\<in>set (refs r). y \<in> set (ids s')"
      by (auto simp: refs_closed_def list_all_iff)
  qed
qed

lemma step_refs_closed:
  assumes "refs_closed s" and "op_ok s op" and "step s op = Inr s'"
  shows "refs_closed s'"
proof (cases op)
  case (Declare i r)
  with assms show ?thesis by (auto intro: refs_closed_add_child)
next
  case (AddIngressRule c rule)
  with assms show ?thesis
    by (intro refs_closed_update_child [of s c "add_ingress_rule c rule" s'])
       (auto dest: add_ingress_rule_frame)
next
  case (AddCommands c cmds)
  with assms show ?thesis
    by (intro refs_closed_update_child [of s c "add_commands c cmds" s'])
       (auto dest: add_commands_frame)
next
  case (GrantRead sec role)
  with assms(3) obtain p where sec: "map_of (children s) sec = Some (DatabaseSecret p)"
    and upd: "update_child s role (grant_read role sec) = Inr s'"
    by (auto split: option.splits resource.splits)
  from sec have "sec \<in> set (ids s)" by (rule map_of_SomeD_fst)
  with assms(1) upd show ?thesis
    by (intro refs_closed_update_child [of s role "grant_read role sec" s'])
       (auto dest!: grant_read_frame intro: rev_image_eqI)
next
  case (AddUlimits c u)
  with assms show ?thesis
    by (intro refs_closed_update_child [of s c "add_ulimits c u" s'])
       (auto dest: add_ulimits_frame)
qed

lemma step_scope_wf: "scope_wf s \<Longrightarrow> step s op = Inr s' \<Longrightarrow> scope_wf s'"
  by (cases op) (auto intro: add_child_wf update_child_wf split: option.splits resource.splits)

lemma step_wf: "stack_wf s \<Longrightarrow> op_ok s op \<Longrightarrow> step s op = Inr s' \<Longrightarrow> stack_wf s'"
  by (auto simp: stack_wf_def intro: step_scope_wf step_refs_closed)

lemma new_stack_wf: "stack_wf (new_stack sid)"
  by (simp add: stack_wf_def scope_wf_def refs_closed_def new_stack_def)

text \<open>
  Whatever statements a stack constructor runs, as long as each mentions only
  constructs that already exist, every state it passes through is well formed:
  distinct non-empty ids without path separators, no dangling reference, and the
  scope keeps the stack's own id.
\<close>

lemma stack_reach_wf: "stack_reach sid s \<Longrightarrow> stack_wf s \<and> scope_name s = sid"
proof (induction rule: stack_reach.induct)
  case start
  show ?case using new_stack_wf [of sid] by (simp add: new_stack_def)
next
  case (stmt s op s')
  then show ?case by (auto intro: step_wf dest: step_scope_name)
qed

lemma run_reach:
  "stack_reach sid s \<Longrightarrow> run_ok s ops \<Longrightarrow> run s ops = Inr s' \<Longrightarrow> stack_reach sid s'"
proof (induction ops arbitrary: s)
  case Nil
  then show ?case by simp
next
  case (Cons op ops)
  then obtain t where t: "step s op = Inr t" and rest: "run t ops = Inr s'"
    by (auto simp: rbind_eq_Inr)
  with Cons.prems have "stack_reach sid t" and "run_ok t ops"
    by (auto intro: stack_reach.stmt)
  from \<open>stack_reach sid t\<close> \<open>run_ok t ops\<close> rest show ?case by (rule Cons.IH)
qed

subsection \<open>Declaration order is a topological order\<close>

lemma topo_from_rank:
  "topo_from seen xs \<Longrightarrow> distinct (seen @ map fst xs) \<Longrightarrow> (c, r) \<in> set xs \<Longrightarrow>
   x \<in> set (refs r) \<Longrightarrow> rank (seen @ map fst xs) x < rank (seen @ map fst xs) c"
proof (induction seen xs rule: topo_from.induct)
  case (1 seen)
  then show ?case by simp
next
  case (2 seen c0 r0 xs)
  show ?case
  proof (cases "(c, r) = (c0, r0)")
    case True
    with "2.prems" have "x \<in> set seen" and "c = c0" and "c0 \<notin> set seen"
      by (auto simp: list_all_iff)
    then show ?thesis
      by (simp add: rank_append_in rank_append_notin rank_less)
  next
    case False
    with "2.prems" have "rank ((seen @ [c0]) @ map fst xs) x < rank ((seen @ [c0]) @ map fst xs) c"
      by (intro "2.IH") auto
    then show ?thesis by simp
  qed
qed

lemma topo_ordered_acyclic:
  assumes topo: "topo_ordered s" and dist: "distinct (ids s)"
  shows "acyclic (set (dep_edges s))"
proof -
  have "set (dep_edges s) \<subseteq> (measure (rank (ids s)))\<inverse>"
  proof
    fix e assume "e \<in> set (dep_edges s)"
    then obtain c r x where e: "e = (c, x)" and cr: "(c, r) \<in> set (children s)"
      and x: "x \<in> set (refs r)"
      by (auto simp: dep_edges_def)
    from topo dist cr x have "rank ([] @ ids s) x < rank ([] @ ids s) c"
      unfolding topo_ordered_def by (intro topo_from_rank) auto
    with e show "e \<in> (measure (rank (ids s)))\<inverse>" by simp
  qed
  moreover have "acyclic ((measure (rank (ids s)))\<inverse>)"
    by (simp add: wf_acyclic)
  ultimately show ?thesis using acyclic_subset by blast
qed

end
