(* ===== verification/SonarStack.thy ===== *)
theory SonarStack
  imports Resources
begin

text \<open>
  The constructor of \<open>SonarStack\<close> (src/sonar/sonar_stack.py), one definition per
  statement in source order: the VPC, the database secret, the security group and
  its ingress rule, the imported parameter group, the Aurora cluster, the ECS
  cluster and the commands appended to its hosts' user data, the task role and its
  read grant on the secret, the connection URL, the load-balanced service and the
  file-descriptor limit of its container. The body runs the statements up to the
  grant, computes the URL with Python's \<open>str.format\<close> (which can raise), then
  runs the remaining statements.
\<close>

subsection \<open>Python's str.format with automatic field numbering\<close>

fun lit_cons :: "char \<Rightarrow> tstring \<Rightarrow> tstring" where
  "lit_cons c (Lit s # t) = Lit (c # s) # t"
| "lit_cons c t = Lit [c] # t"

text \<open>
  \<open>py_format tmpl args n\<close>: \<open>{{\<close> and \<open>}}\<close> are escaped braces, \<open>{}\<close> takes the next
  positional argument (an \<open>IndexError\<close>, here \<open>None\<close>, when there is none), a lone
  brace raises. Named or numbered fields are not used by the program and raise here.
\<close>

fun py_format :: "string \<Rightarrow> tstring list \<Rightarrow> nat \<Rightarrow> tstring option" where
  "py_format [] args n = Some []"
| "py_format [c] args n =
     (if c = CHR ''{'' \<or> c = CHR ''}'' then None else Some [Lit [c]])"
| "py_format (c # d # cs) args n =
     (if c = CHR ''{'' \<and> d = CHR ''{'' then map_option (lit_cons c) (py_format cs args n)
      else if c = CHR ''}'' \<and> d = CHR ''}'' then map_option (lit_cons c) (py_format cs args n)
      else if c = CHR ''{'' \<and> d = CHR ''}'' then
        (if n < length args then map_option (\<lambda>t. args ! n @ t) (py_format cs args (Suc n))
         else None)
      else if c = CHR ''{'' \<or> c = CHR ''}'' then None
      else map_option (lit_cons c) (py_format (d # cs) args n))"

subsection \<open>The deferred endpoint of a database cluster\<close>

definition socket_address :: "cid \<Rightarrow> tstring" where
  "socket_address c = [Tok c ''Endpoint.Address'', Lit '':'', Tok c ''Endpoint.Port'']"

subsection \<open>The statements of the constructor\<close>

definition sonar_vpc :: resource where
  "sonar_vpc = Vpc \<lparr>vpc_cidr = ''10.0.0.0/16'', max_azs = 3\<rparr>"

definition db_master_user_name :: string where
  "db_master_user_name = ''sonar''"

definition sonar_db_secret :: resource where
  "sonar_db_secret =
     DatabaseSecret \<lparr>secret_username = db_master_user_name, generate_key = ''password''\<rparr>"

definition db_secret_id :: cid where
  "db_secret_id = sanitize_id ''/app/sonarDBUser''"

definition sonar_sg :: resource where
  "sonar_sg = SecurityGroup
     \<lparr>sg_vpc = ''SonarVPC'', allow_all_outbound = True,
      sg_description = ''Aurora Security Group'', ingress_rules = []\<rparr>"

definition aurora_ingress :: ingress_rule where
  "aurora_ingress = \<lparr>rule_peer = AnyIpv4, rule_port = Tcp 3306, rule_description = ''Aurora''\<rparr>"

definition sonar_pgroup :: resource where
  "sonar_pgroup = ClusterParameterGroup \<lparr>parameter_group_name = ''default.aurora-postgresql11''\<rparr>"

definition sonar_db :: resource where
  "sonar_db = DatabaseCluster
     \<lparr>db_engine = AURORA_POSTGRESQL, engine_version = ''11.6'',
      default_database_name = ''sonarqube'', db_parameter_group = ''SonarDBParamGroup'',
      master_username = db_master_user_name,
      master_password = SecretField db_secret_id ''password'',
      db_instance_type = instance_type_of BURSTABLE3 MEDIUM,
      db_security_groups = [''SonarQubeSG''], db_vpc = ''SonarVPC''\<rparr>"

definition sonar_cluster :: resource where
  "sonar_cluster = EcsCluster
     \<lparr>cluster_vpc = ''SonarVPC'', capacity_instance_type = Some ''m5.large'', user_data = []\<rparr>"

definition host_commands :: "string list" where
  "host_commands =
     [''sysctl -qw vm.max_map_count=262144'', ''sysctl -w fs.file-max=65536'',
      ''ulimit -n 65536'', ''ulimit -u 4096'']"

definition sonar_task_role :: resource where
  "sonar_task_role = Role
     \<lparr>role_name = ''SonarTaskRole'', assumed_by = ''ecs-tasks.amazonaws.com'',
      role_grants = [ManagedPolicy ''service-role/AmazonECSTaskExecutionRolePolicy'']\<rparr>"

definition jdbc_url :: "error + tstring" where
  "jdbc_url =
     (case py_format ''jdbc:postgresql://{}/sonarqube'' [socket_address ''Database''] 0 of
        None \<Rightarrow> Inl FormatError
      | Some t \<Rightarrow> Inr t)"

definition sonar_service :: "tstring \<Rightarrow> resource" where
  "sonar_service url = LoadBalancedEc2Service
     \<lparr>svc_cluster = ''SonarCluster'', svc_cpu = 512, svc_memory_limit_mib = 2048,
      desired_count = 1, container_image = ''sonarqube:8.2-community'', container_port = 9000,
      svc_secrets = [(''sonar.jdbc.username'', SecretField db_secret_id ''username''),
                     (''sonar.jdbc.password'', SecretField db_secret_id ''password'')],
      svc_environment = [(''sonar.jdbc.url'', url)],
      task_role = Some ''SonarTaskRole'', execution_role = None,
      public_load_balancer = True, container_ulimits = []\<rparr>"

definition nofile_ulimit :: ulimit where
  "nofile_ulimit = \<lparr>ul_name = NOFILE, soft_limit = 65536, hard_limit = 65536\<rparr>"

definition sonar_resource_ops :: "stack_op list" where
  "sonar_resource_ops =
     [Declare ''SonarVPC'' sonar_vpc,
      Declare ''/app/sonarDBUser'' sonar_db_secret,
      Declare ''SonarQubeSG'' sonar_sg,
      AddIngressRule ''SonarQubeSG'' aurora_ingress,
      Declare ''SonarDBParamGroup'' sonar_pgroup,
      Declare ''Database'' sonar_db,
      Declare ''SonarCluster'' sonar_cluster]
     @ map (\<lambda>cmd. AddCommands ''SonarCluster'' [cmd]) host_commands
     @ [Declare ''SonarTaskRole'' sonar_task_role,
        GrantRead db_secret_id ''SonarTaskRole'']"

definition sonar_service_ops :: "tstring \<Rightarrow> stack_op list" where
  "sonar_service_ops url =
     [Declare ''SonarService'' (sonar_service url),
      AddUlimits ''SonarService'' nofile_ulimit]"

definition sonar_stack_body :: "stack \<Rightarrow> error + stack" where
  "sonar_stack_body s =
     rbind (run s sonar_resource_ops)
       (\<lambda>s'. rbind jdbc_url (\<lambda>url. run s' (sonar_service_ops url)))"

subsection \<open>The graph the constructor declares\<close>

text \<open>
  The children of the stack after the constructor has run: \<open>sonar_graph\<close> written
  out (the reference configuration the end-to-end scenario of the specification
  describes), and \<open>sonar_built\<close> in terms of the statements, each declaration with
  the methods the constructor calls on it applied.
\<close>

definition sonar_graph :: "(cid \<times> resource) list" where
  "sonar_graph =
     [(''SonarVPC'', Vpc \<lparr>vpc_cidr = ''10.0.0.0/16'', max_azs = 3\<rparr>),
      (''--app--sonarDBUser'',
         DatabaseSecret \<lparr>secret_username = ''sonar'', generate_key = ''password''\<rparr>),
      (''SonarQubeSG'', SecurityGroup
         \<lparr>sg_vpc = ''SonarVPC'', allow_all_outbound = True,
          sg_description = ''Aurora Security Group'',
          ingress_rules =
            [\<lparr>rule_peer = AnyIpv4, rule_port = Tcp 3306, rule_description = ''Aurora''\<rparr>]\<rparr>),
      (''SonarDBParamGroup'',
         ClusterParameterGroup \<lparr>parameter_group_name = ''default.aurora-postgresql11''\<rparr>),
      (''Database'', DatabaseCluster
         \<lparr>db_engine = AURORA_POSTGRESQL, engine_version = ''11.6'',
          default_database_name = ''sonarqube'', db_parameter_group = ''SonarDBParamGroup'',
          master_username = ''sonar'',
          master_password = SecretField ''--app--sonarDBUser'' ''password'',
          db_instance_type = ''t3.medium'', db_security_groups = [''SonarQubeSG''],
          db_vpc = ''SonarVPC''\<rparr>),
      (''SonarCluster'', EcsCluster
         \<lparr>cluster_vpc = ''SonarVPC'', capacity_instance_type = Some ''m5.large'',
          user_data = [''sysctl -qw vm.max_map_count=262144'', ''sysctl -w fs.file-max=65536'',
                       ''ulimit -n 65536'', ''ulimit -u 4096'']\<rparr>),
      (''SonarTaskRole'', Role
         \<lparr>role_name = ''SonarTaskRole'', assumed_by = ''ecs-tasks.amazonaws.com'',
          role_grants = [ManagedPolicy ''service-role/AmazonECSTaskExecutionRolePolicy'',
                         SecretRead ''--app--sonarDBUser'']\<rparr>),
      (''SonarService'', LoadBalancedEc2Service
         \<lparr>svc_cluster = ''SonarCluster'', svc_cpu = 512, svc_memory_limit_mib = 2048,
          desired_count = 1, container_image = ''sonarqube:8.2-community'',
          container_port = 9000,
          svc_secrets = [(''sonar.jdbc.username'', SecretField ''--app--sonarDBUser'' ''username''),
                         (''sonar.jdbc.password'', SecretField ''--app--sonarDBUser'' ''password'')],
          svc_environment = [(''sonar.jdbc.url'',
             [Lit ''jdbc:postgresql://'', Tok ''Database'' ''Endpoint.Address'', Lit '':'',
              Tok ''Database'' ''Endpoint.Port'', Lit ''/sonarqube''])],
          task_role = Some ''SonarTaskRole'', execution_role = None,
          public_load_balancer = True,
          container_ulimits = [\<lparr>ul_name = NOFILE, soft_limit = 65536, hard_limit = 65536\<rparr>]\<rparr>)]"

definition sonar_built :: "string \<Rightarrow> stack" where
  "sonar_built sid =
     \<lparr>scope_name = sid, children =
        [(''SonarVPC'', sonar_vpc),
         (db_secret_id, sonar_db_secret),
         (''SonarQubeSG'', projr (add_ingress_rule ''SonarQubeSG'' aurora_ingress sonar_sg)),
         (''SonarDBParamGroup'', sonar_pgroup),
         (''Database'', sonar_db),
         (''SonarCluster'', projr (add_commands ''SonarCluster'' host_commands sonar_cluster)),
         (''SonarTaskRole'', projr (grant_read ''SonarTaskRole'' db_secret_id sonar_task_role)),
         (''SonarService'',
            projr (add_ulimits ''SonarService'' nofile_ulimit (sonar_service (projr jdbc_url))))]\<rparr>"

subsection \<open>Observations on a built stack\<close>

text \<open>
  Predicates used to state what the built stack promises; they read the construct
  tree and are executable.
\<close>

definition sg_admits :: "stack \<Rightarrow> cid \<Rightarrow> nat \<Rightarrow> bool" where
  "sg_admits s g n =
     (case map_of (children s) g of
        Some (SecurityGroup q) \<Rightarrow> list_ex (\<lambda>r. rule_port r = Tcp n) (ingress_rules q)
      | _ \<Rightarrow> False)"

definition db_port_open :: "stack \<Rightarrow> cid \<Rightarrow> bool" where
  "db_port_open s c =
     (case map_of (children s) c of
        Some (DatabaseCluster p) \<Rightarrow>
          list_ex (\<lambda>g. sg_admits s g (engine_default_port (db_engine p))) (db_security_groups p)
      | _ \<Rightarrow> False)"

fun secret_refs_of :: "resource \<Rightarrow> secret_ref list" where
  "secret_refs_of (DatabaseCluster p) = [master_password p]"
| "secret_refs_of (LoadBalancedEc2Service p) = map snd (svc_secrets p)"
| "secret_refs_of _ = []"

definition kind_edges :: "stack \<Rightarrow> (kind \<times> kind) list" where
  "kind_edges s =
     concat (map (\<lambda>(c, x). case (map_of (children s) c, map_of (children s) x) of
                              (Some r, Some r') \<Rightarrow> [(kind_of r, kind_of r')]
                            | _ \<Rightarrow> [])
                 (dep_edges s))"

text \<open>
  The abstract resource graph of the specification (section 2): its nodes in
  dependency order, and which kind of resource is configured with which.
\<close>

definition spec_order :: "kind list" where
  "spec_order =
     [Network, Credential, SecurityPolicy, ParameterGroup, DbCluster, ComputeCluster,
      Identity, Service]"

definition spec_dependencies :: "(kind \<times> kind) set" where
  "spec_dependencies =
     {(SecurityPolicy, Network),
      (DbCluster, Network), (DbCluster, SecurityPolicy), (DbCluster, ParameterGroup),
      (DbCluster, Credential),
      (ComputeCluster, Network),
      (Identity, Credential),
      (Service, ComputeCluster), (Service, Identity), (Service, Credential), (Service, DbCluster)}"

text \<open>Attribute values a provisioning run could report for the database endpoint.\<close>

definition example_outputs :: "cid \<Rightarrow> string \<Rightarrow> string option" where
  "example_outputs c a =
     (if c = ''Database'' \<and> a = ''Endpoint.Address'' then Some ''db.example.internal''
      else if c = ''Database'' \<and> a = ''Endpoint.Port'' then Some ''5432'' else None)"

subsection \<open>Evaluation of the constructor\<close>

lemmas sonar_stmt_defs =
  sonar_vpc_def sonar_db_secret_def sonar_sg_def sonar_pgroup_def sonar_db_def
  sonar_cluster_def sonar_task_role_def aurora_ingress_def db_master_user_name_def
  instance_type_of_def host_commands_def nofile_ulimit_def sonar_service_def

lemma db_secret_id_eq: "db_secret_id = ''--app--sonarDBUser''"
  by (simp add: db_secret_id_def sanitize_id_def)

lemma jdbc_url_eq:
  "jdbc_url = Inr [Lit ''jdbc:postgresql://'', Tok ''Database'' ''Endpoint.Address'', Lit '':'',
                   Tok ''Database'' ''Endpoint.Port'', Lit ''/sonarqube'']"
  by (simp add: jdbc_url_def socket_address_def)

lemma run_sonar_resource_ops:
  "run (new_stack sid) sonar_resource_ops =
     Inr \<lparr>scope_name = sid, children = take 7 (children (sonar_built sid))\<rparr>"
  by (simp add: sonar_resource_ops_def new_stack_def add_child_def update_child_def
      sanitize_id_def db_secret_id_eq method_defs sonar_stmt_defs sonar_built_def Let_def)

lemma sonar_stack_body_eq: "sonar_stack_body (new_stack sid) = Inr (sonar_built sid)"
  by (simp add: sonar_stack_body_def run_sonar_resource_ops jdbc_url_eq sonar_service_ops_def
      add_child_def update_child_def sanitize_id_def Let_def method_defs sonar_stmt_defs
      db_secret_id_eq sonar_built_def)

lemma run_ok_sonar_resource_ops: "run_ok (new_stack sid) sonar_resource_ops"
  by (simp add: sonar_resource_ops_def new_stack_def add_child_def update_child_def
      sanitize_id_def db_secret_id_eq method_defs sonar_stmt_defs Let_def)

lemma run_ok_sonar_service_ops:
  "run_ok \<lparr>scope_name = sid, children = take 7 (children (sonar_built sid))\<rparr>
     (sonar_service_ops (projr jdbc_url))"
  by (simp add: sonar_service_ops_def jdbc_url_eq add_child_def update_child_def tstring_refs_def
      sanitize_id_def Let_def method_defs sonar_stmt_defs db_secret_id_eq sonar_built_def)

lemma sonar_stack_body_reach: "stack_reach sid (sonar_built sid)"
proof -
  let ?s1 = "\<lparr>scope_name = sid, children = take 7 (children (sonar_built sid))\<rparr>"
  have r1: "stack_reach sid ?s1"
    by (rule run_reach [OF stack_reach.start run_ok_sonar_resource_ops run_sonar_resource_ops])
  have "run ?s1 (sonar_service_ops (projr jdbc_url)) = Inr (sonar_built sid)"
    using sonar_stack_body_eq [of sid]
    by (simp add: sonar_stack_body_def run_sonar_resource_ops jdbc_url_eq)
  with r1 run_ok_sonar_service_ops show ?thesis
    by (rule run_reach)
qed

lemma sonar_built_graph: "sonar_built sid = \<lparr>scope_name = sid, children = sonar_graph\<rparr>"
  by (simp add: sonar_built_def sonar_graph_def sonar_stmt_defs method_defs db_secret_id_eq
      jdbc_url_eq)

lemmas sonar_eval = sonar_stack_body_eq sonar_built_def sonar_stmt_defs method_defs db_secret_id_eq
  jdbc_url_eq

subsection \<open>Properties of the declared graph\<close>

text \<open>
  C1. The constructor raises no error for any stack id, and the stack it leaves
  holds exactly the declarations of \<open>sonar_graph\<close>, in this order.
\<close>

theorem sonar_stack_result:
  "sonar_stack_body (new_stack sid) = Inr \<lparr>scope_name = sid, children = sonar_graph\<rparr>"
  using sonar_stack_body_eq [of sid] by (simp add: sonar_built_graph)

text \<open>
  C2. Every statement of the constructor mentions only constructs created by an
  earlier statement, so the stack it builds is reachable by well-formed steps:
  construct ids are distinct, non-empty and free of path separators, and no
  declaration refers to a construct that does not exist.
\<close>

theorem sonar_stack_well_formed:
  "case sonar_stack_body (new_stack sid) of
     Inl _ \<Rightarrow> False
   | Inr s \<Rightarrow> stack_reach sid s \<and> stack_wf s"
  using sonar_stack_body_reach [of sid] stack_reach_wf [OF sonar_stack_body_reach [of sid]]
  by (simp add: sonar_stack_body_eq)

text \<open>
  C3. Reference configuration, as the code has it: the security group passed to the
  database cluster admits TCP 3306 (the MySQL port) while the engine is Aurora
  PostgreSQL, whose listener port 5432 no rule of any of the cluster's security
  groups admits.
\<close>

theorem sonar_db_port_not_admitted:
  "case sonar_stack_body (new_stack sid) of
     Inl _ \<Rightarrow> False
   | Inr s \<Rightarrow> sg_admits s ''SonarQubeSG'' 3306 \<and> \<not> db_port_open s ''Database''"
  by (simp add: sonar_eval sg_admits_def db_port_open_def)

text \<open>
  C4. End-to-end scenario of the specification: the compute cluster's hosts get
  exactly the four bootstrap commands in this order; the role has exactly two grants
  (the managed policy and read access to the secret); the service injects two
  secrets and one environment variable, runs under the role, and its container has
  the open-files limit soft = hard = 65536.
\<close>

theorem sonar_scenario:
  "case sonar_stack_body (new_stack sid) of
     Inl _ \<Rightarrow> False
   | Inr s \<Rightarrow>
      (\<exists>p. map_of (children s) ''SonarCluster'' = Some (EcsCluster p) \<and>
           user_data p = [''sysctl -qw vm.max_map_count=262144'', ''sysctl -w fs.file-max=65536'',
                          ''ulimit -n 65536'', ''ulimit -u 4096'']) \<and>
      (\<exists>p. map_of (children s) ''SonarTaskRole'' = Some (Role p) \<and>
           role_grants p = [ManagedPolicy ''service-role/AmazonECSTaskExecutionRolePolicy'',
                            SecretRead ''--app--sonarDBUser'']) \<and>
      (\<exists>q. map_of (children s) ''SonarService'' = Some (LoadBalancedEc2Service q) \<and>
           length (svc_secrets q) = 2 \<and> length (svc_environment q) = 1 \<and>
           task_role q = Some ''SonarTaskRole'' \<and>
           container_ulimits q = [\<lparr>ul_name = NOFILE, soft_limit = 65536, hard_limit = 65536\<rparr>])"
  by (simp add: sonar_eval)

text \<open>
  C5. Refinement of the specification's resource graph: abstracting each declared
  construct to its kind, the constructor declares one resource of each kind in the
  specification's dependency order, and the references between declarations are
  exactly the dependencies the specification prescribes.
\<close>

theorem sonar_dependency_refinement:
  "case sonar_stack_body (new_stack sid) of
     Inl _ \<Rightarrow> False
   | Inr s \<Rightarrow> map (kind_of \<circ> snd) (children s) = spec_order \<and>
             set (kind_edges s) = spec_dependencies"
  by (simp add: sonar_eval spec_order_def spec_dependencies_def kind_edges_def dep_edges_def
      tstring_refs_def insert_commute)

text \<open>
  C7. No secret value is written into the graph: the cluster's master password and
  both secrets injected into the service are references to fields of the declared
  database secret, whose password is generated by the secret store; the service
  takes the username and the password as two separately named secrets.
\<close>

theorem sonar_secrets_by_reference:
  "case sonar_stack_body (new_stack sid) of
     Inl _ \<Rightarrow> False
   | Inr s \<Rightarrow>
      concat (map (secret_refs_of \<circ> snd) (children s)) =
        [SecretField ''--app--sonarDBUser'' ''password'',
         SecretField ''--app--sonarDBUser'' ''username'',
         SecretField ''--app--sonarDBUser'' ''password''] \<and>
      (\<exists>p. map_of (children s) ''--app--sonarDBUser'' = Some (DatabaseSecret p) \<and>
           generate_key p = ''password'') \<and>
      (\<exists>q. map_of (children s) ''SonarService'' = Some (LoadBalancedEc2Service q) \<and>
           map fst (svc_secrets q) = [''sonar.jdbc.username'', ''sonar.jdbc.password''])"
  by (simp add: sonar_eval)

text \<open>
  C8. The connection string given to the service is built from the database
  cluster's deferred endpoint: it holds two tokens of the cluster and nothing the
  builder could resolve itself; once provisioning supplies the endpoint's address
  and port it resolves to the JDBC URL of the sonarqube database.
\<close>

theorem sonar_jdbc_url_deferred:
  assumes "out ''Database'' ''Endpoint.Address'' = Some a"
    and "out ''Database'' ''Endpoint.Port'' = Some p"
  shows "case sonar_stack_body (new_stack sid) of
     Inl _ \<Rightarrow> False
   | Inr s \<Rightarrow>
      (\<exists>q u. map_of (children s) ''SonarService'' = Some (LoadBalancedEc2Service q) \<and>
             map_of (svc_environment q) ''sonar.jdbc.url'' = Some u \<and>
             tstring_refs u = [''Database'', ''Database''] \<and>
             resolve (\<lambda>_ _. None) u = None \<and>
             resolve out u = Some (''jdbc:postgresql://'' @ a @ '':'' @ p @ ''/sonarqube''))"
  using assms
  by (simp add: sonar_eval tstring_refs_def)


theorem sonar_jdbc_url_deferred_witness:
  "example_outputs ''Database'' ''Endpoint.Address'' = Some ''db.example.internal'' \<and>
   example_outputs ''Database'' ''Endpoint.Port'' = Some ''5432'' \<and>
   (case sonar_stack_body (new_stack ''sonar'') of
      Inl _ \<Rightarrow> False
    | Inr s \<Rightarrow>
      (\<exists>q u. map_of (children s) ''SonarService'' = Some (LoadBalancedEc2Service q) \<and>
             map_of (svc_environment q) ''sonar.jdbc.url'' = Some u \<and>
             tstring_refs u = [''Database'', ''Database''] \<and>
             resolve (\<lambda>_ _. None) u = None \<and>
             resolve example_outputs u =
               Some (''jdbc:postgresql://'' @ ''db.example.internal'' @ '':'' @ ''5432''
                     @ ''/sonarqube'')))"
proof -
  have a: "example_outputs ''Database'' ''Endpoint.Address'' = Some ''db.example.internal''"
    and p: "example_outputs ''Database'' ''Endpoint.Port'' = Some ''5432''"
    by (simp_all add: example_outputs_def)
  from sonar_jdbc_url_deferred [where out = example_outputs and a = "''db.example.internal''"
      and p = "''5432''" and sid = "''sonar''", OF a p] a p
  show ?thesis by simp
qed

text \<open>
  C9. The role the code builds with the ECS task-execution managed policy and
  grants read access to the secret is attached as the service's task role, the
  identity of the running application; the service's execution role, which the
  container runtime uses to fetch injected secrets, is left to the framework.
\<close>

theorem sonar_task_role_not_execution_role:
  "case sonar_stack_body (new_stack sid) of
     Inl _ \<Rightarrow> False
   | Inr s \<Rightarrow>
      (\<exists>q. map_of (children s) ''SonarService'' = Some (LoadBalancedEc2Service q) \<and>
           task_role q = Some ''SonarTaskRole'' \<and> execution_role q = None) \<and>
      (\<exists>p. map_of (children s) ''SonarTaskRole'' = Some (Role p) \<and>
           ManagedPolicy ''service-role/AmazonECSTaskExecutionRolePolicy'' \<in> set (role_grants p) \<and>
           SecretRead ''--app--sonarDBUser'' \<in> set (role_grants p))"
  by (simp add: sonar_eval)

end
