(* ===== verification/Bootstrap.thy ===== *)
theory Bootstrap
  imports SonarStack
begin

text \<open>
  The commands SonarStack appends to the user data of the ECS cluster's hosts
  (src/sonar/sonar_stack.py, lines 61-66) are shell text. This theory reads them as
  the host settings they make: \<open>sysctl -w key=value\<close> writes a kernel parameter,
  \<open>ulimit -x n\<close> sets a limit of the boot shell. The settings are then compared
  with the limits the containerised workload needs and with the limit SonarStack
  gives the service's container.
\<close>

datatype host_setting = Sysctl string nat | ShellUlimit char nat

fun words_acc :: "string \<Rightarrow> string \<Rightarrow> string list" where
  "words_acc cur [] = (if cur = [] then [] else [rev cur])"
| "words_acc cur (c # cs) =
     (if c = CHR '' '' then (if cur = [] then words_acc [] cs else rev cur # words_acc [] cs)
      else words_acc (c # cur) cs)"

definition words :: "string \<Rightarrow> string list" where
  "words s = words_acc [] s"

definition split_eq :: "string \<Rightarrow> (string \<times> string) option" where
  "split_eq s =
     (if CHR ''='' \<in> set s
      then Some (takeWhile (\<lambda>c. c \<noteq> CHR ''='') s, tl (dropWhile (\<lambda>c. c \<noteq> CHR ''='') s))
      else None)"

definition parse_command :: "string \<Rightarrow> host_setting option" where
  "parse_command cmd =
     (let ws = words cmd in
      if length ws = 3 \<and> ws ! 0 = ''sysctl'' \<and> take 1 (ws ! 1) = ''-'' \<and> CHR ''w'' \<in> set (ws ! 1)
      then (case split_eq (ws ! 2) of
              Some (k, v) \<Rightarrow> map_option (Sysctl k) (parse_nat v)
            | None \<Rightarrow> None)
      else if length ws = 3 \<and> ws ! 0 = ''ulimit'' \<and> length (ws ! 1) = 2 \<and> take 1 (ws ! 1) = ''-''
      then map_option (ShellUlimit (ws ! 1 ! 1)) (parse_nat (ws ! 2))
      else None)"

definition host_settings :: "string list \<Rightarrow> host_setting list" where
  "host_settings cmds = concat (map (opt_list \<circ> parse_command) cmds)"

text \<open>The value a kernel parameter has after the commands ran: the last write wins.\<close>

definition sysctl_value :: "host_setting list \<Rightarrow> string \<Rightarrow> nat option" where
  "sysctl_value ss k =
     fold (\<lambda>x acc. case x of Sysctl k' v \<Rightarrow> if k' = k then Some v else acc | _ \<Rightarrow> acc) ss None"

text \<open>
  The host limits SonarQube 8 documents for its embedded search engine: at least
  262144 memory-map areas, a system-wide file ceiling of at least 65536, and at
  least 65536 open files for the process running it.
\<close>

definition min_max_map_count :: nat where "min_max_map_count = 262144"

definition min_file_max :: nat where "min_file_max = 65536"

definition min_nofile :: nat where "min_nofile = 65536"

definition cluster_user_data :: "stack \<Rightarrow> cid \<Rightarrow> string list option" where
  "cluster_user_data s c =
     (case map_of (children s) c of Some (EcsCluster p) \<Rightarrow> Some (user_data p) | _ \<Rightarrow> None)"

definition container_nofile :: "stack \<Rightarrow> cid \<Rightarrow> (nat \<times> nat) option" where
  "container_nofile s c =
     (case map_of (children s) c of
        Some (LoadBalancedEc2Service q) \<Rightarrow>
          (case filter (\<lambda>u. ul_name u = NOFILE) (container_ulimits q) of
             [] \<Rightarrow> None
           | u # _ \<Rightarrow> Some (soft_limit u, hard_limit u))
      | _ \<Rightarrow> None)"

subsection \<open>The bootstrap commands of SonarStack\<close>

text \<open>
  C10. The hosts' kernel settings meet the workload's documented minimums, and the
  open-file limit given to the service's container (soft and hard) reaches the
  workload's minimum without exceeding the host's system-wide file ceiling.
\<close>

theorem sonar_host_limits:
  "case sonar_stack_body (new_stack sid) of
     Inl _ \<Rightarrow> False
   | Inr s \<Rightarrow>
      (\<exists>ud mm fm soft hard.
         cluster_user_data s ''SonarCluster'' = Some ud \<and>
         sysctl_value (host_settings ud) ''vm.max_map_count'' = Some mm \<and>
         sysctl_value (host_settings ud) ''fs.file-max'' = Some fm \<and>
         container_nofile s ''SonarService'' = Some (soft, hard) \<and>
         min_max_map_count \<le> mm \<and> min_file_max \<le> fm \<and>
         min_nofile \<le> soft \<and> soft \<le> hard \<and> hard \<le> fm)"
  by (simp add: sonar_eval cluster_user_data_def container_nofile_def host_settings_def parse_command_def words_def split_eq_def
      parse_nat_def digit_val_def sysctl_value_def min_max_map_count_def min_file_max_def
      min_nofile_def Let_def)

end
