(* ===== verification/App.thy ===== *)
theory App
  imports SonarStack
begin

text \<open>
  The entry point src/app.py: a root App scope, and \<open>SonarStack(app, "sonar")\<close>.
  Creating a stack adds it as a child of the App (an empty or duplicate id raises)
  and then checks the stack name, which for a top-level stack is its id and must
  match \<open>^[A-Za-z][A-Za-z0-9-]*$\<close>; SonarStack's constructor body then runs on
  the new, empty stack. \<open>app.synth()\<close> is not modelled.
\<close>

type_synonym app = "stack scope"

definition new_app :: app where
  "new_app = \<lparr>scope_name = [], children = []\<rparr>"

definition is_ascii_letter :: "char \<Rightarrow> bool" where
  "is_ascii_letter c \<longleftrightarrow>
     (let n = (of_char c :: nat) in (65 \<le> n \<and> n \<le> 90) \<or> (97 \<le> n \<and> n \<le> 122))"

definition is_ascii_digit :: "char \<Rightarrow> bool" where
  "is_ascii_digit c \<longleftrightarrow> (let n = (of_char c :: nat) in 48 \<le> n \<and> n \<le> 57)"

definition valid_stack_name :: "string \<Rightarrow> bool" where
  "valid_stack_name n =
     (case n of
        [] \<Rightarrow> False
      | c # cs \<Rightarrow> is_ascii_letter c \<and>
                  list_all (\<lambda>d. is_ascii_letter d \<or> is_ascii_digit d \<or> d = CHR ''-'') cs)"

definition stack_init :: "app \<Rightarrow> string \<Rightarrow> error + app" where
  "stack_init a i =
     rbind (add_child a i (new_stack (sanitize_id i)))
       (\<lambda>a'. if valid_stack_name (sanitize_id i) then Inr a'
             else Inl (InvalidStackName (sanitize_id i)))"

definition sonar_stack_new :: "app \<Rightarrow> string \<Rightarrow> error + app" where
  "sonar_stack_new a i =
     rbind (stack_init a i) (\<lambda>a'. update_child a' (sanitize_id i) sonar_stack_body)"

definition app_main :: "error + app" where
  "app_main = sonar_stack_new new_app ''sonar''"

subsection \<open>Running app.py\<close>

lemma app_main_eq:
  "app_main = Inr \<lparr>scope_name = [], children = [(''sonar'', sonar_built ''sonar'')]\<rparr>"
  by (simp add: app_main_def sonar_stack_new_def stack_init_def new_app_def add_child_def
      sanitize_id_def valid_stack_name_def is_ascii_letter_def is_ascii_digit_def
      update_child_def sonar_stack_body_eq Let_def)

end
