(* ===== verification/Typing.thy ===== *)
theory Typing
  imports SonarStack
begin

text \<open>
  The kinds of constructs the framework's parameters expect. Each reference a
  declaration holds sits in a slot that expects a kind: \<open>vpc=\<close> a network,
  \<open>security_groups=\<close> security groups, \<open>parameter_group=\<close> a parameter group, a
  secret field a credential, \<open>cluster=\<close> a compute cluster, \<open>task_role=\<close> an identity;
  a deferred token needs a construct that has attributes, which an imported
  construct has not. The kind environment of a stack (\<open>kenv\<close>) maps each construct
  id to the kind of its declaration; a stack is well typed when every slot of every
  declaration names a declared construct of a fitting kind. This is the typing
  discipline the framework's Python signatures impose on \<open>SonarStack\<close>; the lemmas
  show that it implies closed references and is kept by every statement whose
  declaration is typed.
\<close>

datatype expect = Is kind | HasAttrs

fun fits :: "expect \<Rightarrow> kind \<Rightarrow> bool" where
  "fits (Is k) k' = (k' = k)"
| "fits HasAttrs k = (k \<noteq> ParameterGroup)"

fun frag_slots :: "frag \<Rightarrow> (cid \<times> expect) list" where
  "frag_slots (Lit _) = []"
| "frag_slots (Tok c _) = [(c, HasAttrs)]"

definition tstring_slots :: "tstring \<Rightarrow> (cid \<times> expect) list" where
  "tstring_slots t = concat (map frag_slots t)"

fun grant_slots :: "grant \<Rightarrow> (cid \<times> expect) list" where
  "grant_slots (ManagedPolicy _) = []"
| "grant_slots (SecretRead c) = [(c, Is Credential)]"

fun ref_slots :: "resource \<Rightarrow> (cid \<times> expect) list" where
  "ref_slots (Vpc _) = []"
| "ref_slots (DatabaseSecret _) = []"
| "ref_slots (SecurityGroup p) = [(sg_vpc p, Is Network)]"
| "ref_slots (ClusterParameterGroup _) = []"
| "ref_slots (DatabaseCluster p) =
     [(db_vpc p, Is Network)] @ map (\<lambda>g. (g, Is SecurityPolicy)) (db_security_groups p)
     @ [(db_parameter_group p, Is ParameterGroup), (secret_cid (master_password p), Is Credential)]"
| "ref_slots (EcsCluster p) = [(cluster_vpc p, Is Network)]"
| "ref_slots (Role p) = concat (map grant_slots (role_grants p))"
| "ref_slots (LoadBalancedEc2Service p) =
     [(svc_cluster p, Is ComputeCluster)] @ map (\<lambda>x. (secret_cid (snd x), Is Credential)) (svc_secrets p)
     @ concat (map (tstring_slots \<circ> snd) (svc_environment p))
     @ map (\<lambda>r. (r, Is Identity)) (opt_list (task_role p) @ opt_list (execution_role p))"

definition kenv :: "stack \<Rightarrow> cid \<Rightarrow> kind option" where
  "kenv s c = map_option kind_of (map_of (children s) c)"

definition decl_typed :: "(cid \<Rightarrow> kind option) \<Rightarrow> resource \<Rightarrow> bool" where
  "decl_typed env r \<longleftrightarrow>
     list_all (\<lambda>(c, e). case env c of Some k \<Rightarrow> fits e k | None \<Rightarrow> False) (ref_slots r)"

definition well_typed :: "stack \<Rightarrow> bool" where
  "well_typed s \<longleftrightarrow> list_all (\<lambda>(c, r). decl_typed (kenv s) r) (children s)"

fun op_typed :: "stack \<Rightarrow> stack_op \<Rightarrow> bool" where
  "op_typed s (Declare i r) = decl_typed (kenv s) r"
| "op_typed s _ = True"

fun run_typed :: "stack \<Rightarrow> stack_op list \<Rightarrow> bool" where
  "run_typed s [] = True"
| "run_typed s (op # ops) =
     (op_typed s op \<and> (case step s op of Inl _ \<Rightarrow> True | Inr s' \<Rightarrow> run_typed s' ops))"

subsection \<open>Slots are the references\<close>

lemma map_fst_ref_slots: "map fst (ref_slots r) = refs r"
proof -
  have f: "map fst (frag_slots f) = frag_refs f" for f
    by (cases f) auto
  have t: "map fst (tstring_slots t) = tstring_refs t" for t
    by (simp add: tstring_slots_def tstring_refs_def map_concat comp_def f)
  have g: "map fst (grant_slots g) = grant_refs g" for g
    by (cases g) auto
  show ?thesis
    by (cases r) (auto simp: map_concat comp_def t g case_prod_beta)
qed

lemma decl_typed_refs:
  "decl_typed (kenv s) r \<Longrightarrow> x \<in> set (refs r) \<Longrightarrow> x \<in> set (ids s)"
  by (auto simp: decl_typed_def list_all_iff kenv_def map_of_None_iff
           simp flip: map_fst_ref_slots split: option.splits)

lemma well_typed_refs_closed: "well_typed s \<Longrightarrow> refs_closed s"
  by (fastforce simp: well_typed_def refs_closed_def list_all_iff dest: decl_typed_refs)

lemma decl_typed_mono:
  assumes le: "env \<subseteq>\<^sub>m env'" and typed: "decl_typed env r"
  shows "decl_typed env' r"
  unfolding decl_typed_def list_all_iff
proof (intro ballI)
  fix x assume x: "x \<in> set (ref_slots r)"
  obtain c e where ce: "x = (c, e)" by (cases x)
  with x typed obtain k where "env c = Some k" and "fits e k"
    by (auto simp: decl_typed_def list_all_iff split: option.splits)
  moreover from \<open>env c = Some k\<close> le have "env' c = Some k"
    by (auto simp: map_le_def dom_def)
  ultimately show "case x of (c, e) \<Rightarrow> (case env' c of Some k \<Rightarrow> fits e k | None \<Rightarrow> False)"
    by (simp add: ce)
qed

subsection \<open>Statements keep the stack well typed\<close>

lemma method_slots_frame:
  "add_ingress_rule c rule r = Inr r' \<Longrightarrow> kind_of r' = kind_of r \<and> ref_slots r' = ref_slots r"
  "add_commands c cmds r = Inr r' \<Longrightarrow> kind_of r' = kind_of r \<and> ref_slots r' = ref_slots r"
  "add_ulimits c u r = Inr r' \<Longrightarrow> kind_of r' = kind_of r \<and> ref_slots r' = ref_slots r"
  "grant_read c sec r = Inr r' \<Longrightarrow>
     kind_of r' = kind_of r \<and> ref_slots r' = ref_slots r @ [(sec, Is Credential)]"
  by (auto simp: method_defs split: resource.splits if_splits)

lemma well_typed_lookup:
  "well_typed s \<Longrightarrow> map_of (children s) c = Some r \<Longrightarrow> decl_typed (kenv s) r"
  by (auto simp: well_typed_def list_all_iff dest!: map_of_SomeD)

lemma kenv_add_child: "add_child s i r = Inr s' \<Longrightarrow> kenv s \<subseteq>\<^sub>m kenv s'"
  by (auto simp: map_le_def kenv_def add_child_Inr_iff map_add_def dom_def split: option.splits)

lemma kenv_update_child:
  assumes "update_child s c f = Inr s'" and "\<And>r r'. f r = Inr r' \<Longrightarrow> kind_of r' = kind_of r"
  shows "kenv s' = kenv s"
proof
  fix x
  from update_child_lookup [OF assms(1)] obtain r r' where "map_of (children s) c = Some r"
    and "f r = Inr r'" and m: "map_of (children s') = (map_of (children s))(c \<mapsto> r')"
    by blast
  with assms(2) show "kenv s' x = kenv s x"
    by (cases "x = c") (simp_all add: kenv_def m)
qed

lemma well_typed_update_child:
  assumes wt: "well_typed s" and upd: "update_child s c f = Inr s'"
    and kind: "\<And>r r'. f r = Inr r' \<Longrightarrow> kind_of r' = kind_of r"
    and new: "\<And>r r'. map_of (children s) c = Some r \<Longrightarrow> f r = Inr r' \<Longrightarrow> decl_typed (kenv s) r'"
  shows "well_typed s'"
proof -
  from upd obtain r r' where look: "map_of (children s) c = Some r" and fr: "f r = Inr r'"
    and s': "s' = s\<lparr>children := map_key c (\<lambda>_. r') (children s)\<rparr>"
    by (auto simp: update_child_Inr_iff)
  have env: "kenv s' = kenv s" by (rule kenv_update_child [OF upd kind])
  show ?thesis
    unfolding well_typed_def list_all_iff
  proof (intro ballI)
    fix x assume "x \<in> set (children s')"
    with s' have "x \<in> set (children s) \<or> x = (c, r')"
      by (auto dest: map_key_const_memD)
    with wt new [OF look fr] env show "case x of (c, r) \<Rightarrow> decl_typed (kenv s') r"
      by (auto simp: well_typed_def list_all_iff)
  qed
qed

lemma well_typed_same_slots:
  assumes wt: "well_typed s" and upd: "update_child s c f = Inr s'"
    and frame: "\<And>r r'. f r = Inr r' \<Longrightarrow> kind_of r' = kind_of r \<and> ref_slots r' = ref_slots r"
  shows "well_typed s'"
proof (rule well_typed_update_child [OF wt upd])
  show "kind_of r' = kind_of r" if "f r = Inr r'" for r r'
    using frame [OF that] by simp
  show "decl_typed (kenv s) r'" if "map_of (children s) c = Some r" and "f r = Inr r'" for r r'
    using well_typed_lookup [OF wt that(1)] frame [OF that(2)] by (simp add: decl_typed_def)
qed

lemma well_typed_add_child:
  assumes wt: "well_typed s" and typed: "decl_typed (kenv s) r" and add: "add_child s i r = Inr s'"
  shows "well_typed s'"
proof -
  have le: "kenv s \<subseteq>\<^sub>m kenv s'" by (rule kenv_add_child [OF add])
  from add have "children s' = children s @ [(sanitize_id i, r)]" by (rule add_child_children)
  with wt typed decl_typed_mono [OF le] show ?thesis
    by (auto simp: well_typed_def list_all_iff)
qed

lemma step_well_typed:
  assumes wt: "well_typed s" and typed: "op_typed s op" and st: "step s op = Inr s'"
  shows "well_typed s'"
proof (cases op)
  case (Declare i r)
  with wt typed st show ?thesis by (auto intro: well_typed_add_child)
next
  case (AddIngressRule c rule)
  with st show ?thesis
    by (auto intro: well_typed_same_slots [OF wt] dest: method_slots_frame(1))
next
  case (AddCommands c cmds)
  with st show ?thesis
    by (auto intro: well_typed_same_slots [OF wt] dest: method_slots_frame(2))
next
  case (AddUlimits c u)
  with st show ?thesis
    by (auto intro: well_typed_same_slots [OF wt] dest: method_slots_frame(3))
next
  case (GrantRead sec role)
  with st obtain p where sec: "map_of (children s) sec = Some (DatabaseSecret p)"
    and upd: "update_child s role (grant_read role sec) = Inr s'"
    by (auto split: option.splits resource.splits)
  from sec have cred: "kenv s sec = Some Credential" by (simp add: kenv_def)
  show ?thesis
  proof (rule well_typed_update_child [OF wt upd])
    show "kind_of r' = kind_of r" if "grant_read role sec r = Inr r'" for r r'
      using method_slots_frame(4) [OF that] by simp
    show "decl_typed (kenv s) r'"
      if "map_of (children s) role = Some r" and "grant_read role sec r = Inr r'" for r r'
      using well_typed_lookup [OF wt that(1)] method_slots_frame(4) [OF that(2)] cred
      by (simp add: decl_typed_def)
  qed
qed

lemma run_typed_append:
  "run s xs = Inr s1 \<Longrightarrow> run_typed s (xs @ ys) \<longleftrightarrow> run_typed s xs \<and> run_typed s1 ys"
  by (induction xs arbitrary: s) (auto split: sum.splits)

text \<open>
  Typing is an invariant of construction: running statements whose
  declarations are typed in the stack they run on keeps a well-typed stack well
  typed, whatever the statements are.
\<close>

lemma run_well_typed:
  "well_typed s \<Longrightarrow> run_typed s ops \<Longrightarrow> run s ops = Inr s' \<Longrightarrow> well_typed s'"
proof (induction ops arbitrary: s)
  case (Cons op ops)
  then obtain t where st: "step s op = Inr t" and rest: "run t ops = Inr s'"
    by (auto simp: rbind_eq_Inr)
  with Cons.prems have "well_typed t" and "run_typed t ops"
    by (auto intro: step_well_typed)
  then show ?case using rest by (rule Cons.IH)
qed simp

lemmas typing_defs = kenv_def decl_typed_def tstring_slots_def

text \<open>
  C11. Every statement of \<open>SonarStack.__init__\<close> is typed in the stack it runs on:
  each parameter names an already declared construct of the kind the parameter
  expects, and the stack the constructor builds is well typed.
\<close>

theorem sonar_stack_well_typed:
  "run_typed (new_stack sid) (sonar_resource_ops @ sonar_service_ops (projr jdbc_url)) \<and>
   (case sonar_stack_body (new_stack sid) of Inl _ \<Rightarrow> False | Inr s \<Rightarrow> well_typed s)"
proof -
  let ?s1 = "\<lparr>scope_name = sid, children = take 7 (children (sonar_built sid))\<rparr>"
  have r1: "run_typed (new_stack sid) sonar_resource_ops"
    by (simp add: sonar_resource_ops_def new_stack_def add_child_def update_child_def
        sanitize_id_def db_secret_id_eq method_defs sonar_stmt_defs Let_def typing_defs)
  have r2: "run_typed ?s1 (sonar_service_ops (projr jdbc_url))"
    by (simp add: sonar_service_ops_def jdbc_url_eq add_child_def update_child_def
        sanitize_id_def Let_def method_defs sonar_stmt_defs db_secret_id_eq sonar_built_def typing_defs)
  have rt: "run_typed (new_stack sid) (sonar_resource_ops @ sonar_service_ops (projr jdbc_url))"
    using r1 r2 by (simp add: run_typed_append [OF run_sonar_resource_ops])
  have run: "run (new_stack sid) (sonar_resource_ops @ sonar_service_ops (projr jdbc_url)) =
               Inr (sonar_built sid)"
    using sonar_stack_body_eq [of sid] by (simp add: sonar_stack_body_def run_append jdbc_url_eq)
  have "well_typed (new_stack sid)" by (simp add: well_typed_def new_stack_def)
  from run_well_typed [OF this rt run] rt show ?thesis
    by (simp add: sonar_stack_body_eq)
qed

end
