(* ===== verification/EcsPattern.thy ===== *)
theory EcsPattern
  imports SonarStack
begin

text \<open>
  What the framework makes of the load-balanced service SonarStack declares
  (src/sonar/sonar_stack.py lines 83-111), and what the container runtime does with
  it when the service's task starts. \<open>ApplicationLoadBalancedEc2Service\<close> creates a
  public load balancer with a listener on port 80, a task definition carrying the
  task role and the execution role of the image options, and adds to it the
  container \<open>web\<close> with the image, cpu, memory, environment and secrets
  (\<open>expand_service\<close>). Adding a container with secrets grants read access to each
  secret to the task definition's execution role, which the task definition
  creates on first use (\<open>add_container\<close>: \<open>obtainExecutionRole\<close>). The program then
  takes the task definition's default container, the first one added, and adds its
  open-files limit (\<open>default_container\<close>, \<open>container_add_ulimits\<close>). When the task
  starts, the container runtime resolves the environment and fetches each secret
  field from the secret store with the execution role's permissions; a secret the
  execution role may not read stops the start (\<open>start_container\<close>,
  \<open>start_service\<close>). The task role is the identity of the running application and
  plays no part in this.
\<close>

subsection \<open>The children of the load-balanced service\<close>

datatype exec_role = ExecGiven cid "grant list" | ExecCreated "grant list"

record container_def =
  ct_name :: string
  ct_image :: string
  ct_cpu :: nat
  ct_memory_limit_mib :: nat
  ct_environment :: "(string \<times> tstring) list"
  ct_secrets :: "(string \<times> secret_ref) list"
  ct_port_mappings :: "nat list"
  ct_ulimits :: "ulimit list"

record task_def =
  td_task_role :: "cid option"
  td_execution_role :: "exec_role option"
  td_containers :: "container_def list"

record lb_service =
  lb_internet_facing :: bool
  listener_port :: nat
  lb_cluster :: cid
  lb_desired_count :: nat
  lb_task_def :: task_def

definition add_container :: "container_def \<Rightarrow> task_def \<Rightarrow> task_def" where
  "add_container ct td =
     (let gs = map (\<lambda>(n, r). SecretRead (secret_cid r)) (ct_secrets ct);
          role = (case td_execution_role td of None \<Rightarrow> ExecCreated [] | Some r \<Rightarrow> r)
      in td\<lparr>td_execution_role :=
              (if gs = [] then td_execution_role td
               else Some (case role of ExecGiven c g \<Rightarrow> ExecGiven c (g @ gs)
                                     | ExecCreated g \<Rightarrow> ExecCreated (g @ gs))),
            td_containers := td_containers td @ [ct]\<rparr>)"

definition expand_service :: "service_props \<Rightarrow> lb_service" where
  "expand_service p =
     \<lparr>lb_internet_facing = public_load_balancer p, listener_port = 80,
      lb_cluster = svc_cluster p, lb_desired_count = desired_count p,
      lb_task_def =
        add_container
          \<lparr>ct_name = ''web'', ct_image = container_image p, ct_cpu = svc_cpu p,
           ct_memory_limit_mib = svc_memory_limit_mib p, ct_environment = svc_environment p,
           ct_secrets = svc_secrets p, ct_port_mappings = [container_port p],
           ct_ulimits = container_ulimits p\<rparr>
          \<lparr>td_task_role = task_role p,
           td_execution_role = map_option (\<lambda>c. ExecGiven c []) (execution_role p),
           td_containers = []\<rparr>\<rparr>"

text \<open>
  \<open>task = ecs_patterns.ApplicationLoadBalancedEc2Service(self, "SonarService", ...)\<close>:
  the pattern object for the declared service, read from the stack.
\<close>

definition sonar_task :: "stack \<Rightarrow> lb_service option" where
  "sonar_task s =
     (case map_of (children s) ''SonarService'' of
        Some (LoadBalancedEc2Service p) \<Rightarrow> Some (expand_service p)
      | _ \<Rightarrow> None)"

definition default_container :: "task_def \<Rightarrow> container_def option" where
  "default_container td = (case td_containers td of [] \<Rightarrow> None | ct # _ \<Rightarrow> Some ct)"

text \<open>
  \<open>container.add_ulimits(...)\<close> on \<open>task.task_definition.default_container\<close>: the
  limit is appended to the first container; on a task definition without
  containers \<open>default_container\<close> is \<open>None\<close> and the call raises.
\<close>

definition container_add_ulimits :: "ulimit \<Rightarrow> lb_service \<Rightarrow> error + lb_service" where
  "container_add_ulimits u lb =
     (case default_container (lb_task_def lb) of
        None \<Rightarrow> Inl (AttributeError ''add_ulimits'')
      | Some _ \<Rightarrow>
          Inr (lb\<lparr>lb_task_def := (lb_task_def lb)\<lparr>td_containers :=
                 (case td_containers (lb_task_def lb) of
                    ct # cts \<Rightarrow> ct\<lparr>ct_ulimits := ct_ulimits ct @ [u]\<rparr> # cts
                  | [] \<Rightarrow> [])\<rparr>\<rparr>))"

subsection \<open>Starting the service's task\<close>

datatype start_error =
    AccessDenied cid | NoSuchField cid string | Unresolved string | NoService cid

type_synonym secret_store = "cid \<Rightarrow> string \<Rightarrow> string option"

definition start_container ::
  "secret_store \<Rightarrow> (cid \<Rightarrow> string \<Rightarrow> string option) \<Rightarrow> grant list \<Rightarrow> container_def \<Rightarrow>
   start_error + (string \<times> string) list" where
  "start_container st cl gs ct =
     rbind (rmap (\<lambda>(n, t). case resolve cl t of None \<Rightarrow> Inl (Unresolved n) | Some v \<Rightarrow> Inr (n, v))
                 (ct_environment ct))
       (\<lambda>env. rbind (rmap (\<lambda>(n, r). case r of SecretField c f \<Rightarrow>
                             if SecretRead c \<notin> set gs then Inl (AccessDenied c)
                             else case st c f of None \<Rightarrow> Inl (NoSuchField c f) | Some v \<Rightarrow> Inr (n, v))
                           (ct_secrets ct))
                (\<lambda>sec. Inr (env @ sec)))"

definition start_service ::
  "secret_store \<Rightarrow> (cid \<Rightarrow> string \<Rightarrow> string option) \<Rightarrow> stack \<Rightarrow> cid \<Rightarrow>
   start_error + (container_def \<times> (string \<times> string) list) list" where
  "start_service st cl s c =
     (case map_of (children s) c of
        Some (LoadBalancedEc2Service p) \<Rightarrow>
          (let td = lb_task_def (expand_service p);
               gs = (case td_execution_role td of
                       None \<Rightarrow> []
                     | Some (ExecCreated g) \<Rightarrow> g
                     | Some (ExecGiven r g) \<Rightarrow>
                         g @ (case map_of (children s) r of Some (Role q) \<Rightarrow> role_grants q | _ \<Rightarrow> []))
           in rmap (\<lambda>ct. rbind (start_container st cl gs ct) (\<lambda>env. Inr (ct, env))) (td_containers td))
      | _ \<Rightarrow> Inl (NoService c))"

subsection \<open>The expansion and the program's calls on it\<close>

lemmas pattern_defs = expand_service_def add_container_def default_container_def

text \<open>
  The resource-level model of lines 104-111 (\<open>add_ulimits\<close> on the service
  declaration) is the container-level call on the expanded pattern.
\<close>

lemma expand_add_ulimits:
  "container_add_ulimits u (expand_service p) =
     Inr (expand_service (p\<lparr>container_ulimits := container_ulimits p @ [u]\<rparr>))"
  by (simp add: container_add_ulimits_def pattern_defs Let_def)

lemma add_ulimits_refines:
  "add_ulimits c u (LoadBalancedEc2Service p) = Inr (LoadBalancedEc2Service p') \<Longrightarrow>
   container_add_ulimits u (expand_service p) = Inr (expand_service p')"
  by (auto simp: add_ulimits_def expand_add_ulimits)

text \<open>
  In the program, the service is declared and then its default container gets the
  limit: the pattern object before the call, with the limit added to its default
  container, is the pattern of the service the constructor leaves.
\<close>

lemma sonar_ulimit_on_default_container:
  "\<exists>s0 lb lb'.
     rbind (run (new_stack sid) sonar_resource_ops)
       (\<lambda>s. rbind jdbc_url (\<lambda>url. run s [Declare ''SonarService'' (sonar_service url)])) = Inr s0 \<and>
     sonar_task s0 = Some lb \<and> sonar_task (sonar_built sid) = Some lb' \<and>
     container_add_ulimits nofile_ulimit lb = Inr lb'"
  by (simp add: run_sonar_resource_ops jdbc_url_eq add_child_def sanitize_id_def Let_def sonar_task_def
      sonar_built_def sonar_stmt_defs method_defs expand_add_ulimits db_secret_id_eq)

lemma start_container_granted:
  assumes "start_container st cl gs ct = Inr env" and "(n, SecretField c f) \<in> set (ct_secrets ct)"
  shows "SecretRead c \<in> set gs \<and> st c f \<noteq> None"
proof -
  from assms(1) obtain sec where
    "rmap (\<lambda>(n, r). case r of SecretField c f \<Rightarrow>
             if SecretRead c \<notin> set gs then Inl (AccessDenied c)
             else case st c f of None \<Rightarrow> Inl (NoSuchField c f) | Some v \<Rightarrow> Inr (n, v))
          (ct_secrets ct) = Inr sec"
    by (auto simp: start_container_def rbind_eq_Inr)
  from rmap_Inr_mem [OF this assms(2)] show ?thesis
    by (auto split: if_splits option.splits)
qed

text \<open>
  A container starts exactly when every environment value resolves and the
  execution role may read every secret field, which the store holds; otherwise the
  start fails with an unresolved variable, a denied secret or a missing field of
  the container.
\<close>

lemma start_container_succeeds:
  "(\<exists>env. start_container st cl gs ct = Inr env) \<longleftrightarrow>
     (\<forall>(n, t) \<in> set (ct_environment ct). resolve cl t \<noteq> None) \<and>
     (\<forall>(n, r) \<in> set (ct_secrets ct). SecretRead (secret_cid r) \<in> set gs \<and>
        (case r of SecretField c f \<Rightarrow> st c f \<noteq> None))"
  (is "?l \<longleftrightarrow> ?env \<and> ?sec")
proof -
  have e: "(\<exists>ys. rmap (\<lambda>(n, t). case resolve cl t of None \<Rightarrow> Inl (Unresolved n) | Some v \<Rightarrow> Inr (n, v))
              (ct_environment ct) = Inr ys) \<longleftrightarrow> ?env"
    by (auto simp: rmap_succeeds split: option.splits)
  have s: "(\<exists>ys. rmap (\<lambda>(n, r). case r of SecretField c f \<Rightarrow>
              if SecretRead c \<notin> set gs then Inl (AccessDenied c)
              else case st c f of None \<Rightarrow> Inl (NoSuchField c f) | Some v \<Rightarrow> Inr (n, v))
              (ct_secrets ct) = Inr ys) \<longleftrightarrow> ?sec"
  proof -
    have pt: "(\<exists>y. (case r of SecretField c f \<Rightarrow>
                 if SecretRead c \<notin> set gs then Inl (AccessDenied c)
                 else case st c f of None \<Rightarrow> Inl (NoSuchField c f) | Some v \<Rightarrow> Inr (n, v)) = Inr y) \<longleftrightarrow>
              SecretRead (secret_cid r) \<in> set gs \<and> (case r of SecretField c f \<Rightarrow> st c f \<noteq> None)"
      for n :: string and r
      by (cases r) (auto split: option.splits)
    show ?thesis unfolding rmap_succeeds
    proof (rule ball_cong [OF refl])
      fix x :: "string \<times> secret_ref"
      show "(\<exists>y. (case x of (n, r) \<Rightarrow> case r of SecretField c f \<Rightarrow>
                 if SecretRead c \<notin> set gs then Inl (AccessDenied c)
                 else case st c f of None \<Rightarrow> Inl (NoSuchField c f) | Some v \<Rightarrow> Inr (n, v)) = Inr y) \<longleftrightarrow>
            (case x of (n, r) \<Rightarrow> SecretRead (secret_cid r) \<in> set gs \<and>
                 (case r of SecretField c f \<Rightarrow> st c f \<noteq> None))"
        by (cases x) (simp only: prod.case pt)
    qed
  qed
  from e s show ?thesis by (auto simp: start_container_def rbind_eq_Inr)
qed

lemma start_container_fails:
  assumes "start_container st cl gs ct = Inl e"
  obtains (Unresolved) n t where "(n, t) \<in> set (ct_environment ct)" "resolve cl t = None"
      "e = Unresolved n"
    | (Denied) n c f where "(n, SecretField c f) \<in> set (ct_secrets ct)" "SecretRead c \<notin> set gs"
      "e = AccessDenied c"
    | (Missing) n c f where "(n, SecretField c f) \<in> set (ct_secrets ct)" "SecretRead c \<in> set gs"
      "st c f = None" "e = NoSuchField c f"
proof (cases "rmap (\<lambda>(n, t). case resolve cl t of None \<Rightarrow> Inl (Unresolved n) | Some v \<Rightarrow> Inr (n, v))
                (ct_environment ct)")
  case (Inl e')
  with assms have "e' = e" by (simp add: start_container_def)
  with rmap_fails [OF Inl] obtain n t where x: "(n, t) \<in> set (ct_environment ct)"
    and r: "(case resolve cl t of None \<Rightarrow> Inl (Unresolved n) | Some v \<Rightarrow> Inr (n, v)) = Inl e"
    by auto
  from r have "resolve cl t = None" and "e = Unresolved n" by (auto split: option.splits)
  with x show ?thesis by (rule that(1))
next
  case (Inr env)
  with assms have "rmap (\<lambda>(n, r). case r of SecretField c f \<Rightarrow>
             if SecretRead c \<notin> set gs then Inl (AccessDenied c)
             else case st c f of None \<Rightarrow> Inl (NoSuchField c f) | Some v \<Rightarrow> Inr (n, v))
             (ct_secrets ct) = Inl e"
    by (auto simp: start_container_def rbind_def split: sum.splits)
  from rmap_fails [OF this] obtain n r where x: "(n, r) \<in> set (ct_secrets ct)"
    and r: "(case r of SecretField c f \<Rightarrow>
             if SecretRead c \<notin> set gs then Inl (AccessDenied c)
             else case st c f of None \<Rightarrow> Inl (NoSuchField c f) | Some v \<Rightarrow> Inr (n, v)) = Inl e"
    by auto
  obtain c f where rc: "r = SecretField c f" by (cases r)
  show ?thesis
  proof (cases "SecretRead c \<in> set gs")
    case False
    with x r rc show ?thesis using that(2) by auto
  next
    case True
    with x r rc show ?thesis using that(3) by (auto split: option.splits)
  qed
qed

subsection \<open>Starting SonarStack's service\<close>

text \<open>A secret store holding the database credential.\<close>

definition example_store :: secret_store where
  "example_store c f =
     (if c = ''--app--sonarDBUser'' \<and> f = ''username'' then Some ''sonar''
      else if c = ''--app--sonarDBUser'' \<and> f = ''password'' then Some ''s3cr3t'' else None)"

text \<open>
  C12. When the service SonarStack declares starts, whatever the secret store and
  the database endpoint hold: the framework's expansion gives it one container,
  \<open>web\<close>, with SonarQube's port and the open-files limit the program adds, behind a
  public listener on port 80; the container starts, its environment holding the
  connection string built from the database's address and port and the username
  and password fetched from the secret store through the execution role.
\<close>

theorem sonar_container_starts:
  assumes "st ''--app--sonarDBUser'' ''username'' = Some u"
    and "st ''--app--sonarDBUser'' ''password'' = Some pw"
    and "cl ''Database'' ''Endpoint.Address'' = Some a" and "cl ''Database'' ''Endpoint.Port'' = Some p"
  shows "case sonar_stack_body (new_stack sid) of
           Inl _ \<Rightarrow> False
         | Inr s \<Rightarrow>
             (\<exists>lb ct. sonar_task s = Some lb \<and> lb_internet_facing lb \<and> listener_port lb = 80 \<and>
                default_container (lb_task_def lb) = Some ct \<and> ct_port_mappings ct = [9000] \<and>
                ct_ulimits ct = [nofile_ulimit] \<and>
                start_service st cl s ''SonarService'' =
                  Inr [(ct, [(''sonar.jdbc.url'', ''jdbc:postgresql://'' @ a @ '':'' @ p @ ''/sonarqube''),
                             (''sonar.jdbc.username'', u), (''sonar.jdbc.password'', pw)])])"
  using assms
  by (simp add: sonar_eval sonar_task_def start_service_def start_container_def pattern_defs Let_def)

theorem sonar_container_starts_witness:
  "case sonar_stack_body (new_stack ''sonar'') of
     Inl _ \<Rightarrow> False
   | Inr s \<Rightarrow>
       (\<exists>lb ct. sonar_task s = Some lb \<and> lb_internet_facing lb \<and> listener_port lb = 80 \<and>
          default_container (lb_task_def lb) = Some ct \<and> ct_port_mappings ct = [9000] \<and>
          ct_ulimits ct = [nofile_ulimit] \<and>
          start_service example_store example_outputs s ''SonarService'' =
            Inr [(ct, [(''sonar.jdbc.url'', ''jdbc:postgresql://db.example.internal:5432/sonarqube''),
                       (''sonar.jdbc.username'', ''sonar''), (''sonar.jdbc.password'', ''s3cr3t'')])])"
  using sonar_container_starts [of example_store "''sonar''" "''s3cr3t''" example_outputs
      "''db.example.internal''" "''5432''" "''sonar''"]
  by (simp add: example_store_def example_outputs_def sonar_stack_body_eq)

text \<open>
  C13. The read grant the program gives the task role (line 79) is not what lets the
  service's container read its credential: the constructor without that statement
  leaves the task role as declared, without any grant on the secret, and the
  container still starts with the connection string and the username and password
  from the secret store, which it fetches through the execution role the framework
  creates and grants.
\<close>

theorem sonar_start_without_task_role_grant:
  assumes "st ''--app--sonarDBUser'' ''username'' = Some u"
    and "st ''--app--sonarDBUser'' ''password'' = Some pw"
    and "cl ''Database'' ''Endpoint.Address'' = Some a" and "cl ''Database'' ''Endpoint.Port'' = Some p"
  shows "\<exists>s' ct.
           rbind (run (new_stack sid) (butlast sonar_resource_ops))
             (\<lambda>s0. rbind jdbc_url (\<lambda>url. run s0 (sonar_service_ops url))) = Inr s' \<and>
           map_of (children s') ''SonarTaskRole'' = Some sonar_task_role \<and>
           start_service st cl s' ''SonarService'' =
             Inr [(ct, [(''sonar.jdbc.url'', ''jdbc:postgresql://'' @ a @ '':'' @ p @ ''/sonarqube''),
                        (''sonar.jdbc.username'', u), (''sonar.jdbc.password'', pw)])]"
  using assms
  by (simp add: sonar_resource_ops_def jdbc_url_eq sonar_service_ops_def new_stack_def add_child_def
      update_child_def sanitize_id_def db_secret_id_eq method_defs sonar_stmt_defs start_service_def
      start_container_def pattern_defs Let_def)

theorem sonar_start_without_task_role_grant_witness:
  "\<exists>s' ct.
     rbind (run (new_stack ''sonar'') (butlast sonar_resource_ops))
       (\<lambda>s0. rbind jdbc_url (\<lambda>url. run s0 (sonar_service_ops url))) = Inr s' \<and>
     map_of (children s') ''SonarTaskRole'' = Some sonar_task_role \<and>
     start_service example_store example_outputs s' ''SonarService'' =
       Inr [(ct, [(''sonar.jdbc.url'', ''jdbc:postgresql://db.example.internal:5432/sonarqube''),
                  (''sonar.jdbc.username'', ''sonar''), (''sonar.jdbc.password'', ''s3cr3t'')])]"
  using sonar_start_without_task_role_grant [of example_store "''sonar''" "''s3cr3t''" example_outputs
      "''db.example.internal''" "''5432''" "''sonar''"]
  by (simp add: example_store_def example_outputs_def)

end
