(* ===== verification/Spec2Isabelle.thy ===== *)
theory Spec2Isabelle
  imports Bootstrap App Typing EcsPattern
begin

text \<open>
  \<^bold>\<open>A verification development for SonarQubeCDK.\<close>

  \<^emph>\<open>The program.\<close> src/sonar/sonar_stack.py defines \<open>SonarStack\<close>, a stack of the
  cloud infrastructure-as-code framework whose constructor declares, in one pass, a
  VPC, a generated database secret, a security group with one ingress rule, an
  imported parameter group, an Aurora PostgreSQL cluster, an ECS cluster whose hosts
  get four bootstrap commands, an IAM role granted read access to the secret, and a
  load-balanced ECS service that receives the secret's fields and a JDBC URL built
  from the cluster's deferred endpoint, with an open-files limit on its container.
  src/app.py creates the App and the stack \<open>sonar\<close>. The framework (construct tree,
  resource classes, the load-balanced service pattern) and the container runtime
  are collaborators, not part of the repository; they are modelled from their
  documented behaviour, as far as the program's properties need them.

  \<^emph>\<open>The theories.\<close>
  \<^item> \<open>Prelude\<close>: a bind for the error sum and a loop over a list that stops at the
    first error (\<open>rbind\<close>, \<open>rmap\<close>), keyed update of association lists
    (\<open>map_key\<close>), positions in a list (\<open>rank\<close>), decimal numerals (\<open>parse_nat\<close>).
  \<^item> \<open>Construct\<close>: the construct tree. A scope (record \<open>scope\<close>) holds its
    children as an ordered list of (id, declaration); \<open>add_child\<close> is what every
    construct's \<open>__init__(scope, id)\<close> does (sanitise the id, refuse an empty or a
    duplicate one, append), \<open>update_child\<close> is a method call on a child held in a
    variable. Errors (\<open>error\<close>) are the exceptions the framework raises.
  \<^item> \<open>Resources\<close>: one record per construct class with the keyword arguments
    SonarStack passes, the datatype \<open>resource\<close> of declarations, the methods
    SonarStack calls (\<open>add_ingress_rule\<close>, \<open>add_commands\<close>, \<open>grant_read\<close>,
    \<open>add_ulimits\<close>), the statements of a constructor (\<open>stack_op\<close>, \<open>step\<close>, \<open>run\<close>),
    deferred tokens (\<open>frag\<close>, \<open>resolve\<close>), references between declarations
    (\<open>refs\<close>), the invariants \<open>stack_wf\<close> and \<open>topo_ordered\<close>, and the step relation
    \<open>stack_reach\<close>, whose states are all well formed (\<open>stack_reach_wf\<close>).
  \<^item> \<open>SonarStack\<close>: \<open>SonarStack.__init__\<close> statement by statement
    (\<open>sonar_vpc\<close> ... \<open>nofile_ulimit\<close>), Python's \<open>str.format\<close> (\<open>py_format\<close>), the
    URL (\<open>jdbc_url\<close>) and the body \<open>sonar_stack_body\<close>. The simplifier evaluates the
    body to \<open>sonar_built\<close>, the declarations in terms of the statements
    (\<open>sonar_stack_body_eq\<close>), and that to the literal graph \<open>sonar_graph\<close>
    (\<open>sonar_built_graph\<close>).
  \<^item> \<open>App\<close>: src/app.py: the App scope, stack creation with the stack-name check
    (\<open>stack_init\<close>), \<open>SonarStack(app, "sonar")\<close> (\<open>sonar_stack_new\<close>, \<open>app_main\<close>),
    which raises nothing (\<open>app_main_eq\<close>).
  \<^item> \<open>Bootstrap\<close>: the four shell commands appended to the cluster hosts' user data,
    read as host settings, and the minimums SonarQube documents for its hosts.
  \<^item> \<open>Typing\<close>: the kinds the framework's parameters accept (\<open>ref_slots\<close>), the
    typing invariant \<open>well_typed\<close>, kept by every typed statement (\<open>run_well_typed\<close>).
  \<^item> \<open>EcsPattern\<close>: the children the framework creates for the load-balanced
    service of lines 83-102 (\<open>expand_service\<close>: a public listener on port 80, a task
    definition with the task role, the container \<open>web\<close>, and an execution role
    created with a read grant for each injected secret by \<open>add_container\<close>), the
    program's \<open>task\<close> variable and its call on the default container (\<open>sonar_task\<close>,
    \<open>default_container\<close>, \<open>container_add_ulimits\<close>, lines 104-111), and the start
    of the service's task by the container runtime (\<open>start_container\<close>,
    \<open>start_service\<close>), which fetches each secret with the execution role's grants;
    a container starts exactly when its environment resolves and every secret is
    granted and present (\<open>start_container_succeeds\<close>), and otherwise fails with
    one of three errors (\<open>start_container_fails\<close>).
  \<^item> this theory: the acyclicity of the declared graph.

  \<^emph>\<open>What is shown.\<close> The constructor raises no error and leaves exactly the
  reference graph (C1); it is reachable by steps that each mention only existing
  constructs, and well formed (C2); the security group opens 3306 while the Aurora
  PostgreSQL port 5432 stays closed (C3); the end-to-end scenario of the
  specification holds (C4); abstracted to resource kinds, the declarations follow
  the specification's order and their references are exactly its dependencies (C5,
  a refinement); the declaration order is a topological order, so the graph is
  acyclic (C6); the secret reaches the database and the service only as references
  to its fields (C7); the URL carries the cluster's deferred endpoint and resolves
  after provisioning (C8); the role is the service's task role, not its execution
  role (C9); the hosts' kernel settings and the container's open-files limit meet
  SonarQube's minimums (C10); every statement passes constructs of the kinds its
  parameters expect (C11); the service's container starts with the connection
  string, the credential fetched through the execution role, SonarQube's port and
  the open-files limit (C12), and it does so as well without the program's grant of
  the secret to the task role (C13). Findings: the database port is not admitted
  (C3), the role is a task role although the specification calls it the execution
  identity (C9), and the grant of line 79 is not what injects the secrets (C13).

  \<^emph>\<open>Bounds and fuel.\<close> None are needed: the constructor is straight-line code,
  every recursive definition of the model is structural (\<open>map_key\<close>,
  \<open>py_format\<close>, \<open>words_acc\<close>, \<open>parse_nat_acc\<close>, \<open>topo_from\<close>, \<open>rmap\<close>),
  and the whole constructor is evaluated by the simplifier.

  \<^emph>\<open>Not modelled.\<close> \<open>app.synth()\<close> and the template it writes; the provisioning
  engine; the child constructs the framework creates inside the declared ones
  beyond the service's task definition, container, execution role and listener
  (subnets, Auto Scaling group and its ECS agent user-data lines, target group, log
  group and log driver); the boot of the cluster's hosts and the kernel's defaults;
  the external services. The repository pins no version of the framework, and the
  agent's user-data lines and the log driver's permissions differ between its
  versions; they are left out rather than modelled after one guessed version.

  \<^emph>\<open>Coverage.\<close> Every statement of src/sonar/sonar_stack.py and the construction
  of the stack in src/app.py are translated by definitions of the development.
\<close>

text \<open>
  C6. The construct ids of the built stack are distinct and each declaration
  refers only to constructs declared before it, so the dependency relation
  between the declared resources has no cycle.
\<close>

theorem sonar_dependencies_acyclic:
  "case sonar_stack_body (new_stack sid) of
     Inl _ \<Rightarrow> False
   | Inr s \<Rightarrow> topo_ordered s \<and> acyclic (set (dep_edges s))"
proof -
  have topo: "topo_ordered (sonar_built sid)"
    by (simp add: topo_ordered_def sonar_eval tstring_refs_def)
  have dist: "distinct (ids (sonar_built sid))"
    by (simp add: sonar_eval)
  from topo_ordered_acyclic [OF topo dist] topo show ?thesis
    by (simp add: sonar_stack_body_eq)
qed

end
